theory Spec2Isabelle
  imports Complex_Main
begin

section \<open>Python values\<close>

text \<open>
  The two modules of the repository (\<^verbatim>\<open>backend/seeq_runner.py\<close> and
  \<^verbatim>\<open>backend/seeq_auth.py\<close>) are glue between a JSON command line and the
  analytics client library (\<^verbatim>\<open>spy\<close>) and pandas. The values that flow through them
  are JSON values, pandas timestamps and rows of tables.

  A float is a NaN, an infinity or a finite number; finite floats are modelled as
  rationals (binary rounding is not modelled). \<open>FInf True\<close> is the positive infinity.
\<close>

datatype pyfloat = FNaN | FInf bool | FFin rat

text \<open>
  A timezone as a timestamp carries it: its name and its offset from UTC, in seconds,
  at the instant of the timestamp.
\<close>

record tzinfo =
  tz_name :: string
  utcoffset :: int

text \<open>
  A pandas \<^verbatim>\<open>Timestamp\<close>: the wall-clock reading in nanoseconds since
  1970-01-01 00:00:00 of its own calendar, and the timezone, \<open>None\<close> for a naive
  timestamp.
\<close>

record timestamp =
  ts_wall :: int
  ts_tz :: "tzinfo option"

text \<open>
  \<open>PNaT\<close> is pandas' not-a-time marker. \<open>PDatetime\<close> is a
  \<^verbatim>\<open>datetime.datetime\<close> of the standard library: it has \<^verbatim>\<open>isoformat\<close>
  but none of \<^verbatim>\<open>tz\<close>, \<^verbatim>\<open>tz_localize\<close>, \<^verbatim>\<open>tz_convert\<close>.
  A dict is an association list in insertion order; its keys are strings.
\<close>

datatype pyval =
    PNone
  | PBool bool
  | PInt int
  | PFloat pyfloat
  | PStr string
  | PList "pyval list"
  | PDict "(string \<times> pyval) list"
  | PTimestamp timestamp
  | PNaT
  | PDatetime int

text \<open>
  Exceptions: the class and the message (\<^verbatim>\<open>str(e)\<close>). \<open>LibraryError\<close> stands
  for any other subclass of \<^verbatim>\<open>Exception\<close> that the client library or pandas raises.
\<close>

datatype exn_kind = AttributeError | TypeError | ValueError | KeyError | OverflowError
  | UnboundLocalError | LibraryError

datatype exn = Exn exn_kind string

definition exn_str :: "exn \<Rightarrow> string" where
  "exn_str e = (case e of Exn _ m \<Rightarrow> m)"

definition exn_class :: "exn \<Rightarrow> exn_kind" where
  "exn_class e = (case e of Exn k _ \<Rightarrow> k)"

text \<open>Evaluating a list of computations in order; the first exception aborts.\<close>

fun sequence_sum :: "('e + 'a) list \<Rightarrow> 'e + 'a list" where
  "sequence_sum [] = Inr []"
| "sequence_sum (Inl e # _) = Inl e"
| "sequence_sum (Inr x # rs) =
     (case sequence_sum rs of Inl e \<Rightarrow> Inl e | Inr xs \<Rightarrow> Inr (x # xs))"

text \<open>Truthiness (\<^verbatim>\<open>if x:\<close>, \<^verbatim>\<open>not x\<close>).\<close>

fun truthy :: "pyval \<Rightarrow> bool" where
  "truthy PNone = False"
| "truthy (PBool b) = b"
| "truthy (PInt n) = (n \<noteq> 0)"
| "truthy (PFloat f) = (f \<noteq> FFin 0)"
| "truthy (PStr s) = (s \<noteq> [])"
| "truthy (PList xs) = (xs \<noteq> [])"
| "truthy (PDict kvs) = (kvs \<noteq> [])"
| "truthy _ = True"

text \<open>\<^verbatim>\<open>str.lower\<close> on the ASCII letters.\<close>

definition lower_char :: "char \<Rightarrow> char" where
  "lower_char c =
     (let n = (of_char c :: nat) in if 65 \<le> n \<and> n \<le> 90 then char_of (n + 32) else c)"

definition str_lower :: "string \<Rightarrow> string" where
  "str_lower s = map lower_char s"

section \<open>Calendar arithmetic and \<^verbatim>\<open>strftime\<close>\<close>

definition digit_char :: "nat \<Rightarrow> char" where
  "digit_char d = char_of (48 + d mod 10)"

text \<open>Decimal digits of \<open>n\<close>, padded with zeros to at least \<open>w\<close> digits.\<close>

fun zero_pad :: "nat \<Rightarrow> nat \<Rightarrow> string" where
  "zero_pad 0 n = (if n = 0 then [] else zero_pad 0 (n div 10) @ [digit_char n])"
| "zero_pad (Suc w) n = zero_pad w (n div 10) @ [digit_char n]"

definition str_int :: "int \<Rightarrow> string" where
  "str_int n =
     (if n = 0 then ''0''
      else if n < 0 then ''-'' @ zero_pad 0 (nat (- n))
      else zero_pad 0 (nat n))"

definition nat_str :: "nat \<Rightarrow> string" where
  "nat_str n = str_int (int n)"

text \<open>Days since 1970-01-01 of a date of the proleptic Gregorian calendar, and back.\<close>

definition days_from_civil :: "int \<Rightarrow> int \<Rightarrow> int \<Rightarrow> int" where
  "days_from_civil y m d =
     (let y' = (if m \<le> 2 then y - 1 else y);
          era = y' div 400;
          yoe = y' mod 400;
          doy = (153 * (if m > 2 then m - 3 else m + 9) + 2) div 5 + d - 1;
          doe = yoe * 365 + yoe div 4 - yoe div 100 + doy
      in era * 146097 + doe - 719468)"

definition civil_from_days :: "int \<Rightarrow> int \<times> int \<times> int" where
  "civil_from_days z0 =
     (let z = z0 + 719468;
          era = z div 146097;
          doe = z mod 146097;
          yoe = (doe - doe div 1460 + doe div 36524 - doe div 146096) div 365;
          doy = doe - (365 * yoe + yoe div 4 - yoe div 100);
          mp = (5 * doy + 2) div 153;
          d = doy - (153 * mp + 2) div 5 + 1;
          m = (if mp < 10 then mp + 3 else mp - 9);
          y = yoe + era * 400
      in (if m \<le> 2 then y + 1 else y, m, d))"

definition ns_per_second :: int where
  "ns_per_second = 1000000000"

definition ns_per_day :: int where
  "ns_per_day = 86400 * ns_per_second"

text \<open>The wall-clock reading, in nanoseconds, of a calendar date and time.\<close>

definition wall_ns :: "int \<Rightarrow> int \<Rightarrow> int \<Rightarrow> int \<Rightarrow> int \<Rightarrow> int \<Rightarrow> int" where
  "wall_ns y m d hh mi ss =
     (days_from_civil y m d * 86400 + hh * 3600 + mi * 60 + ss) * ns_per_second"

text \<open>
  \<^verbatim>\<open>strftime('%Y-%m-%d %H:%M:%S')\<close> of a wall-clock reading: the fraction of
  a second is dropped.
\<close>

definition format_wall :: "int \<Rightarrow> string" where
  "format_wall v =
     (let secs = v div ns_per_second;
          days = secs div 86400;
          sod = secs mod 86400;
          (y, m, d) = civil_from_days days
      in zero_pad 4 (nat y) @ ''-'' @ zero_pad 2 (nat m) @ ''-'' @ zero_pad 2 (nat d) @ '' ''
         @ zero_pad 2 (nat (sod div 3600)) @ '':'' @ zero_pad 2 (nat (sod mod 3600 div 60))
         @ '':'' @ zero_pad 2 (nat (sod mod 60)))"

definition Timestamp_strftime :: "timestamp \<Rightarrow> string" where
  "Timestamp_strftime t = format_wall (ts_wall t)"

section \<open>Timezone operations of a timestamp\<close>

definition tz_UTC :: tzinfo where
  "tz_UTC = \<lparr>tz_name = ''UTC'', utcoffset = 0\<rparr>"

text \<open>The instant of a timestamp on the UTC time line (a naive one is read as UTC).\<close>

definition utc_ns :: "timestamp \<Rightarrow> int" where
  "utc_ns t =
     (case ts_tz t of None \<Rightarrow> ts_wall t | Some z \<Rightarrow> ts_wall t - utcoffset z * ns_per_second)"

text \<open>\<^verbatim>\<open>t.tz_convert('UTC')\<close> of an aware timestamp with timezone \<open>z\<close>.\<close>

definition convert_to_utc :: "timestamp \<Rightarrow> tzinfo \<Rightarrow> timestamp" where
  "convert_to_utc t z = \<lparr>ts_wall = ts_wall t - utcoffset z * ns_per_second, ts_tz = Some tz_UTC\<rparr>"

section \<open>The JSON sanitizer \<^verbatim>\<open>clean_for_json\<close>\<close>

text \<open>\<^verbatim>\<open>obj != obj\<close>, for an object that is neither a dict nor a list.\<close>

fun ne_self :: "pyval \<Rightarrow> bool" where
  "ne_self (PFloat FNaN) = True"
| "ne_self PNaT = True"
| "ne_self _ = False"

text \<open>\<^verbatim>\<open>hasattr(obj, 'isoformat')\<close>.\<close>

fun has_isoformat :: "pyval \<Rightarrow> bool" where
  "has_isoformat (PTimestamp _) = True"
| "has_isoformat PNaT = True"
| "has_isoformat (PDatetime _) = True"
| "has_isoformat _ = False"

text \<open>
  \<^verbatim>\<open>seeq_runner.py\<close>, lines 507 to 527. The branches are those of the source, in its
  order: dict, list, \<^verbatim>\<open>obj != obj\<close>, \<^verbatim>\<open>hasattr(obj, 'isoformat')\<close>, anything else.
  In the timestamp branch the source reads \<^verbatim>\<open>obj.tz\<close>, which a
  \<^verbatim>\<open>datetime.datetime\<close> does not have.
\<close>

fun clean_for_json :: "pyval \<Rightarrow> exn + pyval" where
  "clean_for_json (PDict kvs) =
     (case sequence_sum
             (map (\<lambda>(k, v). case clean_for_json v of Inl e \<Rightarrow> Inl e | Inr v' \<Rightarrow> Inr (k, v')) kvs) of
        Inl e \<Rightarrow> Inl e
      | Inr kvs' \<Rightarrow> Inr (PDict kvs'))"
| "clean_for_json (PList xs) =
     (case sequence_sum (map clean_for_json xs) of Inl e \<Rightarrow> Inl e | Inr ys \<Rightarrow> Inr (PList ys))"
| "clean_for_json obj =
     (if ne_self obj then Inr PNone
      else if has_isoformat obj then
        (case obj of
           PTimestamp t \<Rightarrow>
             (case ts_tz t of
                Some z \<Rightarrow> Inr (PStr (Timestamp_strftime (convert_to_utc t z)))
              | None \<Rightarrow> Inr (PStr (Timestamp_strftime t)))
         | _ \<Rightarrow> Inl (Exn AttributeError ''object has no attribute tz''))
      else Inr obj)"



fun at_path :: "nat list \<Rightarrow> pyval \<Rightarrow> pyval option" where
  "at_path [] v = Some v"
| "at_path (i # p) (PList xs) = (if i < length xs then at_path p (xs ! i) else None)"
| "at_path (i # p) (PDict kvs) = (if i < length kvs then at_path p (snd (kvs ! i)) else None)"
| "at_path (i # p) _ = None"

section \<open>The external collaborators\<close>

text \<open>
  A table (a pandas \<^verbatim>\<open>DataFrame\<close>) is the list of its rows; a row maps the column
  names to the cells, in column order.
\<close>

type_synonym row = "(string \<times> pyval) list"
type_synonym frame = "row list"

text \<open>
  What \<^verbatim>\<open>pd.to_datetime\<close> returns for a scalar: a timestamp, or the not-a-time marker
  (for instance on the strings \<^verbatim>\<open>NaT\<close> and \<^verbatim>\<open>nan\<close>).
\<close>

datatype pdtime = PdTimestamp timestamp | PdNaT

text \<open>
  What the date parser returns: a pandas timestamp (from \<^verbatim>\<open>pd.to_datetime\<close> or from the
  serial-number arithmetic), the not-a-time marker (from \<^verbatim>\<open>pd.to_datetime\<close>), or a
  \<^verbatim>\<open>datetime.datetime\<close> (from \<^verbatim>\<open>dateutil\<close>).
\<close>

datatype dtval = Stamp timestamp | NaTStamp | StdDatetime int

fun of_pandas :: "pdtime \<Rightarrow> dtval" where
  "of_pandas (PdTimestamp t) = Stamp t"
| "of_pandas PdNaT = NaTStamp"

text \<open>
  The table that \<^verbatim>\<open>spy.pull\<close> returns, as far as the program reads it:
  \<^verbatim>\<open>data_df.reset_index().to_dict('records')\<close>, \<^verbatim>\<open>list(data_df.columns)\<close> and
  \<^verbatim>\<open>[str(idx) for idx in data_df.index]\<close>.
\<close>

record pulled =
  pf_records :: "row list"
  pf_columns :: pyval
  pf_index :: pyval

text \<open>The calls made to the remote server, in order.\<close>

datatype event =
    Login pyval pyval pyval bool
  | Search pyval
  | Pull frame dtval dtval pyval

text \<open>
  The behaviour of the libraries the program calls, which the repository does not
  contain, is a parameter of the model. The remote calls may depend on the calls made
  before them.
  \<^item> \<open>set_compatibility\<close>: the exception, if any, of \<^verbatim>\<open>spy.options.compatibility = 66\<close>;
  \<^item> \<open>has_server_option\<close>, \<open>set_server\<close>: \<^verbatim>\<open>hasattr(spy.options, 'server')\<close> and the
    exception, if any, of \<^verbatim>\<open>spy.options.server = url\<close>;
  \<^item> \<open>spy_login\<close>: \<^verbatim>\<open>spy.login\<close> raises, or returns and leaves \<^verbatim>\<open>spy.user\<close> at the
    given value;
  \<^item> \<open>spy_search\<close>, \<open>spy_pull\<close>: \<^verbatim>\<open>spy.search\<close> and \<^verbatim>\<open>spy.pull\<close>;
  \<^item> \<open>assign_nonscalar\<close>: the cells of the column that \<^verbatim>\<open>df[k] = v\<close> stores when
    \<open>v\<close> is a list or a dict, or its exception;
  \<^item> \<open>to_datetime\<close>, \<open>to_datetime_format\<close>: \<^verbatim>\<open>pd.to_datetime(x)\<close> and
    \<^verbatim>\<open>pd.to_datetime(x, format=fmt)\<close>, which return a timestamp or the not-a-time
    marker, or raise;
  \<^item> \<open>str_to_float\<close>: \<^verbatim>\<open>float(s)\<close> of a string, \<open>None\<close> when it raises;
  \<^item> \<open>dateutil_parse\<close>: \<^verbatim>\<open>dateutil.parser.parse\<close>;
  \<^item> \<open>tz_lookup\<close>: the timezone a \<^verbatim>\<open>tz_convert\<close> argument names and its offset at
    the given UTC instant, or the exception for an unknown zone;
  \<^item> \<open>format_exc\<close>: \<^verbatim>\<open>traceback.format_exc()\<close> while the exception is handled;
  \<^item> \<open>str_other\<close>: \<^verbatim>\<open>str\<close> of a value that is not a string, \<^verbatim>\<open>None\<close>, a
    boolean or an integer.
\<close>

record world =
  set_compatibility :: "exn option"
  has_server_option :: bool
  set_server :: "pyval \<Rightarrow> exn option"
  spy_login :: "event list \<Rightarrow> pyval \<Rightarrow> pyval \<Rightarrow> pyval \<Rightarrow> bool \<Rightarrow> exn + pyval"
  spy_search :: "event list \<Rightarrow> pyval \<Rightarrow> exn + frame"
  assign_nonscalar :: "frame \<Rightarrow> string \<Rightarrow> pyval \<Rightarrow> exn + pyval list"
  spy_pull :: "event list \<Rightarrow> frame \<Rightarrow> dtval \<Rightarrow> dtval \<Rightarrow> pyval \<Rightarrow> exn + pulled"
  to_datetime :: "pyval \<Rightarrow> exn + pdtime"
  to_datetime_format :: "string \<Rightarrow> pyval \<Rightarrow> exn + pdtime"
  str_to_float :: "string \<Rightarrow> pyfloat option"
  dateutil_parse :: "pyval \<Rightarrow> exn + int"
  tz_lookup :: "pyval \<Rightarrow> int \<Rightarrow> exn + tzinfo"
  format_exc :: "exn \<Rightarrow> string"
  str_other :: "pyval \<Rightarrow> string"

text \<open>
  The state of the process: \<^verbatim>\<open>spy.user\<close>, \<^verbatim>\<open>spy.options.server\<close>, the module's
  \<^verbatim>\<open>auth_state\<close> dictionary, and the remote calls made so far.
\<close>

record auth_state =
  is_authenticated :: bool
  as_url :: pyval
  as_access_key :: pyval
  as_password :: pyval
  as_auth_provider :: pyval
  as_ignore_ssl_errors :: bool

record state =
  spy_user :: pyval
  spy_server :: pyval
  auth :: auth_state
  calls :: "event list"

definition py_str :: "world \<Rightarrow> pyval \<Rightarrow> string" where
  "py_str w v =
     (case v of
        PStr s \<Rightarrow> s
      | PNone \<Rightarrow> ''None''
      | PBool b \<Rightarrow> (if b then ''True'' else ''False'')
      | PInt n \<Rightarrow> str_int n
      | _ \<Rightarrow> str_other w v)"

text \<open>\<^verbatim>\<open>d[k]\<close> and \<^verbatim>\<open>d.get(k, default)\<close>.\<close>

definition py_getitem :: "pyval \<Rightarrow> string \<Rightarrow> exn + pyval" where
  "py_getitem d k =
     (case d of
        PDict kvs \<Rightarrow> (case map_of kvs k of Some v \<Rightarrow> Inr v | None \<Rightarrow> Inl (Exn KeyError k))
      | _ \<Rightarrow> Inl (Exn TypeError ''object is not subscriptable''))"

definition dict_get :: "pyval \<Rightarrow> string \<Rightarrow> pyval \<Rightarrow> pyval" where
  "dict_get d k dflt =
     (case d of PDict kvs \<Rightarrow> (case map_of kvs k of Some v \<Rightarrow> v | None \<Rightarrow> dflt) | _ \<Rightarrow> dflt)"

section \<open>\<^verbatim>\<open>authenticate_seeq\<close> and the small operations\<close>

text \<open>
  Lines 62 to 66 of \<^verbatim>\<open>seeq_runner.py\<close> (and 45 to 49 of \<^verbatim>\<open>seeq_auth.py\<close>, the same
  text): the coercion of \<^verbatim>\<open>ignore_ssl_errors\<close>.
\<close>

definition coerce_ignore_ssl_errors :: "pyval \<Rightarrow> bool" where
  "coerce_ignore_ssl_errors v =
     (case v of
        PStr s \<Rightarrow> str_lower s \<in> set [''true'', ''1'', ''yes'', ''on'']
      | PBool b \<Rightarrow> b
      | _ \<Rightarrow> False)"

text \<open>
  \<^verbatim>\<open>authenticate_seeq\<close> gets as far as its login call: setting the compatibility
  option does not raise, or raises the \<^verbatim>\<open>AttributeError\<close> that line 49 catches.
\<close>

definition reaches_login :: "world \<Rightarrow> bool" where
  "reaches_login w =
     (case set_compatibility w of None \<Rightarrow> True | Some e \<Rightarrow> exn_class e = AttributeError)"

text \<open>
  The body of the \<^verbatim>\<open>try\<close> of \<^verbatim>\<open>authenticate_seeq\<close> (\<^verbatim>\<open>seeq_runner.py\<close>, lines 40 to
  99); \<open>Inl\<close> is an exception that reaches the handler of line 101.
\<close>

definition authenticate_seeq_body ::
  "world \<Rightarrow> pyval \<Rightarrow> pyval \<Rightarrow> pyval \<Rightarrow> pyval \<Rightarrow> pyval \<Rightarrow> state \<Rightarrow> (exn + pyval) \<times> state" where
  "authenticate_seeq_body w url access_key password auth_provider ignore_ssl_errors st =
     (case (case set_compatibility w of
              Some e \<Rightarrow> (if exn_class e = AttributeError then None else Some e)
            | None \<Rightarrow> None) of
        Some e \<Rightarrow> (Inl e, st)
      | None \<Rightarrow>
          (let st1 = (if has_server_option w \<and> set_server w url = None
                      then st\<lparr>spy_server := url\<rparr> else st);
               ignore = coerce_ignore_ssl_errors ignore_ssl_errors;
               st2 = st1\<lparr>calls := calls st1 @ [Login url access_key password ignore]\<rparr>
           in case spy_login w (calls st1) url access_key password ignore of
                Inl e \<Rightarrow> (Inl e, st2)
              | Inr user \<Rightarrow>
                  (let st3 = st2\<lparr>spy_user := user\<rparr> in
                   if user \<noteq> PNone then
                     (Inr (PDict
                        [(''success'', PBool True),
                         (''message'', PStr (''Successfully authenticated as '' @ py_str w user)),
                         (''user'', PStr (py_str w user)),
                         (''server_url'', url)]),
                      st3\<lparr>auth := \<lparr>is_authenticated = True, as_url = url,
                                     as_access_key = access_key, as_password = password,
                                     as_auth_provider = auth_provider,
                                     as_ignore_ssl_errors = ignore\<rparr>\<rparr>)
                   else
                     (Inr (PDict
                        [(''success'', PBool False),
                         (''message'', PStr ''Authentication failed - no user returned''),
                         (''error'', PStr ''No user returned from SPy'')]),
                      st3))))"

text \<open>
  A public operation returns \<open>Inr\<close> of its envelope, or \<open>Inl\<close> of the exception it
  lets through to its caller, and the new state.
\<close>

definition authenticate_seeq ::
  "world \<Rightarrow> pyval \<Rightarrow> pyval \<Rightarrow> pyval \<Rightarrow> pyval \<Rightarrow> pyval \<Rightarrow> state \<Rightarrow> (exn + pyval) \<times> state" where
  "authenticate_seeq w url access_key password auth_provider ignore_ssl_errors st =
     (case authenticate_seeq_body w url access_key password auth_provider ignore_ssl_errors st of
        (Inl e, st') \<Rightarrow>
          (Inr (PDict
             [(''success'', PBool False),
              (''message'', PStr (''Authentication failed: '' @ exn_str e)),
              (''error'', PStr (exn_str e)),
              (''traceback'', PStr (format_exc w e))]),
           st')
      | (Inr env, st') \<Rightarrow> (Inr env, st'))"

definition check_auth_status :: "world \<Rightarrow> state \<Rightarrow> (exn + pyval) \<times> state" where
  "check_auth_status w st =
     (if spy_user st \<noteq> PNone \<and> is_authenticated (auth st) then
        (Inr (PDict
           [(''success'', PBool True),
            (''isAuthenticated'', PBool True),
            (''user'', PStr (py_str w (spy_user st))),
            (''message'', PStr (''Authenticated as '' @ py_str w (spy_user st)))]),
         st)
      else
        (Inr (PDict
           [(''success'', PBool True),
            (''isAuthenticated'', PBool False),
            (''message'', PStr ''Not authenticated'')]),
         st))"

definition test_connection :: "world \<Rightarrow> pyval \<Rightarrow> state \<Rightarrow> (exn + pyval) \<times> state" where
  "test_connection w url st =
     (Inr (PDict
        [(''success'', PBool True),
         (''message'', PStr ''SPy module is available and ready for authentication''),
         (''status_code'', PStr ''OK'')]),
      st)"

definition get_server_info :: "world \<Rightarrow> pyval \<Rightarrow> state \<Rightarrow> (exn + pyval) \<times> state" where
  "get_server_info w url st =
     (Inr (PDict
        [(''success'', PBool True),
         (''message'', PStr ''Server info retrieved successfully''),
         (''server_info'', PDict [(''status'', PStr ''Available''), (''url'', url)])]),
      st)"

text \<open>
  A step of a function body raises, returns from the function with an envelope, or goes
  on with a value.
\<close>

datatype 'a flow = Raised exn | Returned pyval | Go 'a

text \<open>
  The authentication that opens \<^verbatim>\<open>search_sensors_only\<close> (lines 147 to 170) and
  \<^verbatim>\<open>search_and_pull_sensors\<close> (lines 246 to 271), the same text in both.
\<close>

definition authenticate_first ::
  "world \<Rightarrow> pyval \<Rightarrow> pyval \<Rightarrow> pyval \<Rightarrow> pyval \<Rightarrow> pyval \<Rightarrow> state \<Rightarrow> unit flow \<times> state" where
  "authenticate_first w url access_key password auth_provider ignore_ssl_errors st =
     (if truthy url \<and> truthy access_key \<and> truthy password then
        (case authenticate_seeq w url access_key password auth_provider ignore_ssl_errors st of
           (Inl e, st1) \<Rightarrow> (Raised e, st1)
         | (Inr auth_result, st1) \<Rightarrow>
             (case py_getitem auth_result ''success'' of
                Inl e \<Rightarrow> (Raised e, st1)
              | Inr ok \<Rightarrow>
                  if \<not> truthy ok then
                    (Returned (PDict
                       [(''success'', PBool False),
                        (''message'', PStr (''Authentication failed: ''
                            @ py_str w (dict_get auth_result ''error'' (PStr ''Unknown error'')))),
                        (''error'', PStr ''Authentication required''),
                        (''auth_details'', auth_result)]),
                     st1)
                  else if spy_user st1 = PNone then
                    (Returned (PDict
                       [(''success'', PBool False),
                        (''message'',
                           PStr ''Authentication appeared successful but spy.user is still None''),
                        (''error'', PStr ''Authentication state issue'')]),
                     st1)
                  else (Go (), st1)))
      else
        (Returned (PDict
           [(''success'', PBool False),
            (''message'', PStr ''Authentication credentials are required''),
            (''error'', PStr ''Missing credentials'')]),
         st))"

section \<open>The date parser \<^verbatim>\<open>parse_excel_friendly_datetime\<close>\<close>

definition excel_formats :: "string list" where
  "excel_formats =
     [''%m/%d/%Y'', ''%m/%d/%Y %H:%M:%S'', ''%m/%d/%Y %I:%M:%S %p'',
      ''%Y-%m-%d'', ''%Y-%m-%d %H:%M:%S'', ''%m-%d-%Y'', ''%m-%d-%Y %H:%M:%S'',
      ''%d/%m/%Y'', ''%d/%m/%Y %H:%M:%S'']"

text \<open>The loop of lines 307 to 314: the first layout that parses wins.\<close>

fun try_formats :: "world \<Rightarrow> string list \<Rightarrow> pyval \<Rightarrow> pdtime option" where
  "try_formats w [] dt_str = None"
| "try_formats w (fmt # fmts) dt_str =
     (case to_datetime_format w fmt dt_str of
        Inr result \<Rightarrow> Some result
      | Inl e \<Rightarrow> try_formats w fmts dt_str)"

text \<open>\<^verbatim>\<open>float(x)\<close>.\<close>

definition py_float :: "world \<Rightarrow> pyval \<Rightarrow> exn + pyfloat" where
  "py_float w v =
     (case v of
        PStr s \<Rightarrow> (case str_to_float w s of
                     Some f \<Rightarrow> Inr f
                   | None \<Rightarrow> Inl (Exn ValueError ''could not convert string to float''))
      | PInt n \<Rightarrow> Inr (FFin (of_int n))
      | PFloat f \<Rightarrow> Inr f
      | PBool b \<Rightarrow> Inr (FFin (if b then 1 else 0))
      | _ \<Rightarrow> Inl (Exn TypeError ''float() argument must be a string or a real number''))"

definition int64_max :: int where
  "int64_max = 9223372036854775807"

text \<open>\<^verbatim>\<open>int(x)\<close> of a finite float: truncation towards zero.\<close>

definition py_int_of_rat :: "rat \<Rightarrow> int" where
  "py_int_of_rat q = (if 0 \<le> q then \<lfloor>q\<rfloor> else \<lceil>q\<rceil>)"

text \<open>
  \<^verbatim>\<open>pd.Timedelta(days=x)\<close>, in nanoseconds; it raises on a NaN, an infinity and
  outside the 64-bit range.
\<close>

definition Timedelta_days :: "pyfloat \<Rightarrow> exn + int" where
  "Timedelta_days f =
     (case f of
        FNaN \<Rightarrow> Inl (Exn ValueError ''cannot convert float NaN to integer'')
      | FInf _ \<Rightarrow> Inl (Exn OverflowError ''cannot convert float infinity to integer'')
      | FFin q \<Rightarrow>
          (let ns = py_int_of_rat (q * 24 * 3600 * 1000000000) in
           if - int64_max \<le> ns \<and> ns \<le> int64_max then Inr ns
           else Inl (Exn OverflowError ''Python int too large to convert to C long'')))"

text \<open>\<^verbatim>\<open>pd.Timestamp('1899-12-30')\<close>.\<close>

definition excel_epoch :: timestamp where
  "excel_epoch = \<lparr>ts_wall = wall_ns 1899 12 30 0 0 0, ts_tz = None\<rparr>"

text \<open>\<^verbatim>\<open>excel_epoch + delta\<close>; it raises outside the range of a timestamp.\<close>

definition excel_epoch_plus :: "int \<Rightarrow> exn + timestamp" where
  "excel_epoch_plus delta =
     (let v = ts_wall excel_epoch + delta in
      if - int64_max \<le> v \<and> v \<le> int64_max then Inr (excel_epoch\<lparr>ts_wall := v\<rparr>)
      else Inl (Exn LibraryError ''OutOfBoundsDatetime''))"

text \<open>Lines 318 to 323: the spreadsheet serial number.\<close>

definition excel_serial_parse :: "world \<Rightarrow> pyval \<Rightarrow> exn + timestamp" where
  "excel_serial_parse w dt_str =
     (case py_float w dt_str of
        Inl e \<Rightarrow> Inl e
      | Inr excel_serial \<Rightarrow>
          (case Timedelta_days excel_serial of
             Inl e \<Rightarrow> Inl e
           | Inr delta \<Rightarrow> excel_epoch_plus delta))"

text \<open>
  The nanoseconds of a serial number of days, and the serials for which neither the
  \<^verbatim>\<open>Timedelta\<close> nor the sum with the epoch leaves the 64-bit range.
\<close>

definition serial_ns :: "rat \<Rightarrow> int" where
  "serial_ns q = py_int_of_rat (q * 24 * 3600 * 1000000000)"

definition serial_in_range :: "rat \<Rightarrow> bool" where
  "serial_in_range q =
     (- int64_max \<le> serial_ns q \<and> serial_ns q \<le> int64_max
      \<and> - int64_max \<le> ts_wall excel_epoch + serial_ns q
      \<and> ts_wall excel_epoch + serial_ns q \<le> int64_max)"

text \<open>
  \<^verbatim>\<open>parse_excel_friendly_datetime\<close>, lines 275 to 340. \<open>Inr None\<close> is the return
  value \<^verbatim>\<open>None\<close>. Every statement of the outer \<^verbatim>\<open>try\<close> (line 293) that can raise stands
  in a \<^verbatim>\<open>try\<close> of its own whose handler only prints, so the handler of line 338, which
  raises \<^verbatim>\<open>ValueError\<close>, is never entered: when the last strategy fails the function
  falls off its end and returns \<^verbatim>\<open>None\<close>.
\<close>

definition parse_excel_friendly_datetime :: "world \<Rightarrow> pyval \<Rightarrow> exn + dtval option" where
  "parse_excel_friendly_datetime w dt_str =
     (if \<not> truthy dt_str then Inr None
      else case to_datetime w dt_str of
          Inr result \<Rightarrow> Inr (Some (of_pandas result))
        | Inl e1 \<Rightarrow>
            (case try_formats w excel_formats dt_str of
               Some result \<Rightarrow> Inr (Some (of_pandas result))
             | None \<Rightarrow>
                 (case excel_serial_parse w dt_str of
                    Inr result \<Rightarrow> Inr (Some (Stamp result))
                  | Inl e2 \<Rightarrow>
                      (case dateutil_parse w dt_str of
                         Inr result \<Rightarrow> Inr (Some (StdDatetime result))
                       | Inl e3 \<Rightarrow> Inr None))))"



text \<open>All four strategies fail on an input.\<close>

definition all_strategies_fail :: "world \<Rightarrow> pyval \<Rightarrow> bool" where
  "all_strategies_fail w dt_str =
     (isl (to_datetime w dt_str) \<and> try_formats w excel_formats dt_str = None
      \<and> isl (excel_serial_parse w dt_str) \<and> isl (dateutil_parse w dt_str))"

section \<open>Timezone resolution\<close>

text \<open>
  The attribute \<^verbatim>\<open>tz\<close>, and the methods \<^verbatim>\<open>tz_localize('UTC')\<close> and
  \<^verbatim>\<open>tz_convert(zone)\<close>. The not-a-time marker has \<^verbatim>\<open>tz\<close> (it is
  \<^verbatim>\<open>None\<close>), and its two methods return the marker whatever their argument.
\<close>

definition dt_tz :: "dtval \<Rightarrow> exn + tzinfo option" where
  "dt_tz d =
     (case d of
        Stamp t \<Rightarrow> Inr (ts_tz t)
      | NaTStamp \<Rightarrow> Inr None
      | StdDatetime _ \<Rightarrow> Inl (Exn AttributeError ''datetime.datetime object has no attribute tz''))"

definition tz_localize_utc :: "dtval \<Rightarrow> exn + dtval" where
  "tz_localize_utc d =
     (case d of
        Stamp t \<Rightarrow>
          (case ts_tz t of
             None \<Rightarrow> Inr (Stamp (t\<lparr>ts_tz := Some tz_UTC\<rparr>))
           | Some z \<Rightarrow>
               Inl (Exn TypeError
                 ''Cannot localize tz-aware Timestamp, use tz_convert for conversions''))
      | NaTStamp \<Rightarrow> Inr NaTStamp
      | StdDatetime _ \<Rightarrow>
          Inl (Exn AttributeError ''datetime.datetime object has no attribute tz_localize''))"

definition tz_convert :: "world \<Rightarrow> pyval \<Rightarrow> dtval \<Rightarrow> exn + dtval" where
  "tz_convert w zone d =
     (case d of
        Stamp t \<Rightarrow>
          (case ts_tz t of
             None \<Rightarrow>
               Inl (Exn TypeError
                 ''Cannot convert tz-naive Timestamp, use tz_localize to localize'')
           | Some z \<Rightarrow>
               (case tz_lookup w zone (utc_ns t) of
                  Inl e \<Rightarrow> Inl e
                | Inr z' \<Rightarrow>
                    Inr (Stamp \<lparr>ts_wall = utc_ns t + utcoffset z' * ns_per_second,
                                ts_tz = Some z'\<rparr>)))
      | NaTStamp \<Rightarrow> Inr NaTStamp
      | StdDatetime _ \<Rightarrow>
          Inl (Exn AttributeError ''datetime.datetime object has no attribute tz_convert''))"

text \<open>\<^verbatim>\<open>dt.tz_localize('UTC').tz_convert(timezone)\<close>.\<close>

definition localize_convert :: "world \<Rightarrow> pyval \<Rightarrow> dtval \<Rightarrow> exn + dtval" where
  "localize_convert w zone d =
     (case tz_localize_utc d of Inl e \<Rightarrow> Inl e | Inr d' \<Rightarrow> tz_convert w zone d')"

text \<open>
  Lines 362 to 373: the three branches. The second branch tests the timezone of
  \<^verbatim>\<open>start_dt\<close> only and then localizes both values.
\<close>

definition timezone_branches ::
  "world \<Rightarrow> pyval \<Rightarrow> dtval \<Rightarrow> dtval \<Rightarrow> exn + dtval \<times> dtval" where
  "timezone_branches w timezone start_dt end_dt =
     (if truthy timezone then
        (case localize_convert w timezone start_dt of
           Inl e \<Rightarrow> Inl e
         | Inr s \<Rightarrow>
             (case localize_convert w timezone end_dt of
                Inl e \<Rightarrow> Inl e
              | Inr e' \<Rightarrow> Inr (s, e')))
      else
        (case dt_tz start_dt of
           Inl e \<Rightarrow> Inl e
         | Inr None \<Rightarrow>
             (case tz_localize_utc start_dt of
                Inl e \<Rightarrow> Inl e
              | Inr s \<Rightarrow>
                  (case tz_localize_utc end_dt of
                     Inl e \<Rightarrow> Inl e
                   | Inr e' \<Rightarrow> Inr (s, e')))
         | Inr (Some z) \<Rightarrow> Inr (start_dt, end_dt)))"

text \<open>
  Lines 362 to 376: the branches, then the two prints of lines 375 and 376, which read
  \<^verbatim>\<open>start_dt.tz\<close> and \<^verbatim>\<open>end_dt.tz\<close> inside the \<^verbatim>\<open>try\<close> and so raise on a value
  without that attribute.
\<close>

definition apply_timezone :: "world \<Rightarrow> pyval \<Rightarrow> dtval \<Rightarrow> dtval \<Rightarrow> exn + dtval \<times> dtval" where
  "apply_timezone w timezone start_dt end_dt =
     (case timezone_branches w timezone start_dt end_dt of
        Inl e \<Rightarrow> Inl e
      | Inr (s, e') \<Rightarrow>
          (case dt_tz s of
             Inl e \<Rightarrow> Inl e
           | Inr tz1 \<Rightarrow>
               (case dt_tz e' of
                  Inl e \<Rightarrow> Inl e
                | Inr tz2 \<Rightarrow> Inr (s, e'))))"

definition missing_datetime_envelope :: pyval where
  "missing_datetime_envelope =
     PDict [(''success'', PBool False),
            (''message'', PStr ''Start and end datetime are required''),
            (''error'', PStr ''Missing datetime values'')]"

definition invalid_datetime_envelope :: "exn \<Rightarrow> pyval" where
  "invalid_datetime_envelope e =
     PDict [(''success'', PBool False),
            (''message'', PStr (''Invalid datetime format: '' @ exn_str e)),
            (''error'', PStr ''Datetime parsing failed''),
            (''supported_formats'', PList
               [PStr ''Excel dates: 9/1/2025, 9/1/2025 12:00:00 PM'',
                PStr ''ISO format: 2025-09-01T00:00:00Z'',
                PStr ''Standard formats: 09/01/2025, 2025-09-01'',
                PStr ''Excel serial numbers: 45292.5''])]"

text \<open>
  The \<^verbatim>\<open>try\<close> of lines 342 to 393: both values are parsed, then tested for
  \<^verbatim>\<open>None\<close>, then given their timezone; any exception becomes the envelope of line 383.
\<close>

definition resolve_time_range ::
  "world \<Rightarrow> pyval \<Rightarrow> pyval \<Rightarrow> pyval \<Rightarrow> (dtval \<times> dtval) flow" where
  "resolve_time_range w start_datetime end_datetime timezone =
     (case parse_excel_friendly_datetime w start_datetime of
        Inl e \<Rightarrow> Returned (invalid_datetime_envelope e)
      | Inr start_dt \<Rightarrow>
          (case parse_excel_friendly_datetime w end_datetime of
             Inl e \<Rightarrow> Returned (invalid_datetime_envelope e)
           | Inr end_dt \<Rightarrow>
               (case (start_dt, end_dt) of
                  (Some s, Some e) \<Rightarrow>
                    (case apply_timezone w timezone s e of
                       Inl ex \<Rightarrow> Returned (invalid_datetime_envelope ex)
                     | Inr p \<Rightarrow> Go p)
                | _ \<Rightarrow> Returned missing_datetime_envelope)))"

section \<open>Searching, deduplication and the pull\<close>

fun set_item :: "string \<Rightarrow> pyval \<Rightarrow> row \<Rightarrow> row" where
  "set_item k v [] = [(k, v)]"
| "set_item k v ((k', v') # r) = (if k' = k then (k, v) # r else (k', v') # set_item k v r)"

definition is_scalar :: "pyval \<Rightarrow> bool" where
  "is_scalar v = (case v of PList _ \<Rightarrow> False | PDict _ \<Rightarrow> False | _ \<Rightarrow> True)"

text \<open>
  \<^verbatim>\<open>df[k] = v\<close>: a scalar is stored in every row; for a list or a dict pandas decides
  the cells (or raises). The number of rows does not change.
\<close>

definition assign_column :: "world \<Rightarrow> frame \<Rightarrow> string \<Rightarrow> pyval \<Rightarrow> exn + frame" where
  "assign_column w fr k v =
     (if is_scalar v then Inr (map (set_item k v) fr)
      else case assign_nonscalar w fr k v of
          Inl e \<Rightarrow> Inl e
        | Inr cells \<Rightarrow>
            Inr (map (\<lambda>i. set_item k (if i < length cells then cells ! i else PFloat FNaN) (fr ! i))
                   [0..<length fr]))"

text \<open>The one-row table of a sensor that was not found or whose search raised.\<close>

definition placeholder :: "pyval \<Rightarrow> string \<Rightarrow> frame" where
  "placeholder sensor_name status =
     [[(''Name'', sensor_name), (''ID'', PNone), (''Type'', PStr ''StoredSignal''),
       (''Original_Name'', sensor_name), (''Status'', PStr status)]]"

text \<open>One turn of the loop of lines 413 to 445.\<close>

definition search_one :: "world \<Rightarrow> pyval \<Rightarrow> state \<Rightarrow> frame \<times> state" where
  "search_one w sensor_name st =
     (let st1 = st\<lparr>calls := calls st @ [Search sensor_name]\<rparr> in
      case spy_search w (calls st) sensor_name of
        Inl e \<Rightarrow> (placeholder sensor_name (''Search Error: '' @ exn_str e), st1)
      | Inr result \<Rightarrow>
          if result \<noteq> [] then
            (case assign_column w result ''Original_Name'' sensor_name of
               Inl e \<Rightarrow> (placeholder sensor_name (''Search Error: '' @ exn_str e), st1)
             | Inr result' \<Rightarrow> (result', st1))
          else (placeholder sensor_name ''Not Found'', st1))"

fun search_loop :: "world \<Rightarrow> pyval list \<Rightarrow> state \<Rightarrow> frame list \<times> state" where
  "search_loop w [] st = ([], st)"
| "search_loop w (sensor_name # rest) st =
     (case search_one w sensor_name st of
        (fr, st1) \<Rightarrow> (case search_loop w rest st1 of (frs, st2) \<Rightarrow> (fr # frs, st2)))"

text \<open>\<^verbatim>\<open>for x in v\<close>: the elements, or the exception of a value that is not iterable.\<close>

definition py_iter :: "pyval \<Rightarrow> exn + pyval list" where
  "py_iter v =
     (case v of
        PList xs \<Rightarrow> Inr xs
      | PStr s \<Rightarrow> Inr (map (\<lambda>c. PStr [c]) s)
      | PDict kvs \<Rightarrow> Inr (map (\<lambda>kv. PStr (fst kv)) kvs)
      | _ \<Rightarrow> Inl (Exn TypeError ''object is not iterable''))"

text \<open>A cell of a row; a column the row lacks reads as NaN, as after \<^verbatim>\<open>pd.concat\<close>.\<close>

definition row_get :: "row \<Rightarrow> string \<Rightarrow> pyval" where
  "row_get r k = (case map_of r k of Some v \<Rightarrow> v | None \<Rightarrow> PFloat FNaN)"

text \<open>
  \<^verbatim>\<open>pd.concat(frames, ignore_index=True)\<close>: the rows in order, over the union of the
  columns in order of first appearance.
\<close>

definition concat_frames :: "frame list \<Rightarrow> frame" where
  "concat_frames frs =
     (let cols = rev (remdups (rev (concat (map (map fst) (concat frs)))))
      in map (\<lambda>r. map (\<lambda>c. (c, row_get r c)) cols) (concat frs))"

definition frame_columns :: "frame \<Rightarrow> string list" where
  "frame_columns fr = (case fr of [] \<Rightarrow> [] | r # _ \<Rightarrow> map fst r)"

text \<open>\<^verbatim>\<open>df.to_dict('records')\<close>.\<close>

definition to_records :: "frame \<Rightarrow> pyval" where
  "to_records fr = PList (map PDict fr)"

definition notna :: "pyval \<Rightarrow> bool" where
  "notna v = (v \<noteq> PNone \<and> v \<noteq> PFloat FNaN \<and> v \<noteq> PNaT)"

text \<open>Line 458: \<^verbatim>\<open>combined_results[combined_results['ID'].notna()]\<close>.\<close>

definition filter_found :: "frame \<Rightarrow> exn + frame" where
  "filter_found combined =
     (if ''ID'' \<in> set (frame_columns combined)
      then Inr (filter (\<lambda>r. notna (row_get r ''ID'')) combined)
      else Inl (Exn KeyError ''ID''))"

text \<open>
  Line 471: \<^verbatim>\<open>drop_duplicates(subset=['Original_Name'], keep='first')\<close>. A row is
  kept when no earlier row has its name; pandas hashes the names, so a list or a dict
  among them raises. Names are compared by equality of values.
\<close>

fun drop_dups :: "pyval list \<Rightarrow> frame \<Rightarrow> frame" where
  "drop_dups seen [] = []"
| "drop_dups seen (r # rs) =
     (let k = row_get r ''Original_Name'' in
      if k \<in> set seen then drop_dups seen rs else r # drop_dups (k # seen) rs)"

definition drop_duplicates_original_name :: "frame \<Rightarrow> exn + frame" where
  "drop_duplicates_original_name fr =
     (if ''Original_Name'' \<notin> set (frame_columns fr) then Inl (Exn KeyError ''Original_Name'')
      else if list_ex (\<lambda>r. \<not> is_scalar (row_get r ''Original_Name'')) fr
      then Inl (Exn TypeError ''unhashable type'')
      else Inr (drop_dups [] fr))"

text \<open>
  The \<^verbatim>\<open>try\<close> of lines 478 to 551: the pull, the conversion to records and the
  sanitizing of the data and of the search results. \<open>Inl\<close> is an exception that
  reaches the handler of line 553.
\<close>

definition pull_and_clean ::
  "world \<Rightarrow> frame \<Rightarrow> frame \<Rightarrow> dtval \<Rightarrow> dtval \<Rightarrow> pyval \<Rightarrow> pyval \<Rightarrow> pyval \<Rightarrow> state
     \<Rightarrow> (exn + pyval) \<times> state" where
  "pull_and_clean w combined_results valid_sensors start_dt end_dt grid
       start_datetime end_datetime st =
     (let st1 = st\<lparr>calls := calls st @ [Pull valid_sensors start_dt end_dt grid]\<rparr> in
      case spy_pull w (calls st) valid_sensors start_dt end_dt grid of
        Inl e \<Rightarrow> (Inl e, st1)
      | Inr data_df \<Rightarrow>
          (case clean_for_json (to_records (pf_records data_df)) of
             Inl e \<Rightarrow> (Inl e, st1)
           | Inr cleaned_data \<Rightarrow>
               (case clean_for_json (to_records combined_results) of
                  Inl e \<Rightarrow> (Inl e, st1)
                | Inr cleaned_search_results \<Rightarrow>
                    (Inr (PDict
                       [(''success'', PBool True),
                        (''message'', PStr (''Successfully retrieved data for ''
                            @ nat_str (length valid_sensors) @ '' sensors'')),
                        (''search_results'', cleaned_search_results),
                        (''data'', cleaned_data),
                        (''data_columns'', pf_columns data_df),
                        (''data_index'', pf_index data_df),
                        (''sensor_count'', PInt (int (length valid_sensors))),
                        (''time_range'', PStr (py_str w start_datetime @ '' to ''
                            @ py_str w end_datetime))]),
                     st1))))"

definition pull_phase ::
  "world \<Rightarrow> frame \<Rightarrow> frame \<Rightarrow> dtval \<Rightarrow> dtval \<Rightarrow> pyval \<Rightarrow> pyval \<Rightarrow> pyval \<Rightarrow> state
     \<Rightarrow> pyval \<times> state" where
  "pull_phase w combined_results valid_sensors start_dt end_dt grid
       start_datetime end_datetime st =
     (case pull_and_clean w combined_results valid_sensors start_dt end_dt grid
             start_datetime end_datetime st of
        (Inr result, st1) \<Rightarrow> (result, st1)
      | (Inl e, st1) \<Rightarrow>
          (PDict
             [(''success'', PBool False),
              (''message'', PStr (''Failed to pull data: '' @ exn_str e)),
              (''error'', PStr (exn_str e)),
              (''search_results'', to_records combined_results)],
           st1))"

text \<open>Lines 403 to 407.\<close>

definition set_server_url :: "world \<Rightarrow> pyval \<Rightarrow> state \<Rightarrow> state" where
  "set_server_url w url st =
     (if truthy url \<and> set_server w url = None then st\<lparr>spy_server := url\<rparr> else st)"


text \<open>
  The body of the \<^verbatim>\<open>try\<close> of \<^verbatim>\<open>search_and_pull_sensors\<close> (\<^verbatim>\<open>seeq_runner.py\<close>, lines
  242 to 564); \<open>Inl\<close> is an exception that reaches the handler of line 566.
\<close>

definition search_and_pull_sensors_body ::
  "world \<Rightarrow> pyval \<Rightarrow> pyval \<Rightarrow> pyval \<Rightarrow> pyval \<Rightarrow> pyval \<Rightarrow> pyval \<Rightarrow> pyval \<Rightarrow> pyval
     \<Rightarrow> pyval \<Rightarrow> pyval \<Rightarrow> state \<Rightarrow> (exn + pyval) \<times> state" where
  "search_and_pull_sensors_body w sensor_names start_datetime end_datetime grid timezone
       url access_key password auth_provider ignore_ssl_errors st =
     (case authenticate_first w url access_key password auth_provider ignore_ssl_errors st of
        (Raised e, st1) \<Rightarrow> (Inl e, st1)
      | (Returned env, st1) \<Rightarrow> (Inr env, st1)
      | (Go u, st1) \<Rightarrow>
          (case resolve_time_range w start_datetime end_datetime timezone of
             Raised e \<Rightarrow> (Inl e, st1)
           | Returned env \<Rightarrow> (Inr env, st1)
           | Go (start_dt, end_dt) \<Rightarrow>
               (let st2 = set_server_url w url st1 in
                case py_iter sensor_names of
                  Inl e \<Rightarrow> (Inl e, st2)
                | Inr names \<Rightarrow>
                    (case search_loop w names st2 of
                       (search_results, st3) \<Rightarrow>
                         if search_results = [] then
                           (Inr (PDict
                              [(''success'', PBool False),
                               (''message'', PStr ''No sensors found or search failed''),
                               (''error'', PStr ''Search returned no results'')]),
                            st3)
                         else
                           (let combined_results = concat_frames search_results in
                            case filter_found combined_results of
                              Inl e \<Rightarrow> (Inl e, st3)
                            | Inr valid_sensors \<Rightarrow>
                                if valid_sensors = [] then
                                  (Inr (PDict
                                     [(''success'', PBool False),
                                      (''message'',
                                         PStr ''No valid sensors found to pull data from''),
                                      (''error'', PStr ''All sensors failed search''),
                                      (''search_results'', to_records combined_results)]),
                                   st3)
                                else
                                  (case drop_duplicates_original_name valid_sensors of
                                     Inl e \<Rightarrow> (Inl e, st3)
                                   | Inr deduped \<Rightarrow>
                                       (case pull_phase w combined_results deduped start_dt end_dt
                                               grid start_datetime end_datetime st3 of
                                          (result, st4) \<Rightarrow> (Inr result, st4))))))))"

text \<open>
  \<^verbatim>\<open>search_and_pull_sensors\<close> with its handler of lines 566 to 575. The function
  contains \<^verbatim>\<open>import traceback\<close> (lines 381 and 557, in handlers that return), which makes
  \<^verbatim>\<open>traceback\<close> a local variable of the whole function. It is unbound whenever line
  568 reads it, so the handler raises \<^verbatim>\<open>UnboundLocalError\<close> instead of returning
  its envelope.
\<close>

definition search_and_pull_sensors ::
  "world \<Rightarrow> pyval \<Rightarrow> pyval \<Rightarrow> pyval \<Rightarrow> pyval \<Rightarrow> pyval \<Rightarrow> pyval \<Rightarrow> pyval \<Rightarrow> pyval
     \<Rightarrow> pyval \<Rightarrow> pyval \<Rightarrow> state \<Rightarrow> (exn + pyval) \<times> state" where
  "search_and_pull_sensors w sensor_names start_datetime end_datetime grid timezone
       url access_key password auth_provider ignore_ssl_errors st =
     (case search_and_pull_sensors_body w sensor_names start_datetime end_datetime grid timezone
             url access_key password auth_provider ignore_ssl_errors st of
        (Inr result, st') \<Rightarrow> (Inr result, st')
      | (Inl e, st') \<Rightarrow>
          (Inl (Exn UnboundLocalError
             ''cannot access local variable traceback where it is not associated with a value''),
           st'))"

text \<open>
  \<^verbatim>\<open>search_sensors_only\<close> (lines 138 to 233). Its handler reads the module's
  \<^verbatim>\<open>traceback\<close> and returns the envelope.
\<close>

definition search_sensors_only_body ::
  "world \<Rightarrow> pyval \<Rightarrow> pyval \<Rightarrow> pyval \<Rightarrow> pyval \<Rightarrow> pyval \<Rightarrow> pyval \<Rightarrow> state
     \<Rightarrow> (exn + pyval) \<times> state" where
  "search_sensors_only_body w sensor_names url access_key password auth_provider
       ignore_ssl_errors st =
     (case authenticate_first w url access_key password auth_provider ignore_ssl_errors st of
        (Raised e, st1) \<Rightarrow> (Inl e, st1)
      | (Returned env, st1) \<Rightarrow> (Inr env, st1)
      | (Go u, st1) \<Rightarrow>
          (case py_iter sensor_names of
             Inl e \<Rightarrow> (Inl e, st1)
           | Inr names \<Rightarrow>
               (case search_loop w names st1 of
                  (search_results, st2) \<Rightarrow>
                    if search_results \<noteq> [] then
                      (Inr (PDict
                         [(''success'', PBool True),
                          (''message'', PStr (''Search completed for '' @ nat_str (length names)
                              @ '' sensors'')),
                          (''search_results'', to_records (concat_frames search_results)),
                          (''sensor_count'', PInt (int (length names)))]),
                       st2)
                    else
                      (Inr (PDict
                         [(''success'', PBool False),
                          (''message'', PStr ''Search failed for all sensors''),
                          (''error'', PStr ''No search results'')]),
                       st2))))"

definition search_sensors_only ::
  "world \<Rightarrow> pyval \<Rightarrow> pyval \<Rightarrow> pyval \<Rightarrow> pyval \<Rightarrow> pyval \<Rightarrow> pyval \<Rightarrow> state
     \<Rightarrow> (exn + pyval) \<times> state" where
  "search_sensors_only w sensor_names url access_key password auth_provider ignore_ssl_errors st =
     (case search_sensors_only_body w sensor_names url access_key password auth_provider
             ignore_ssl_errors st of
        (Inr result, st') \<Rightarrow> (Inr result, st')
      | (Inl e, st') \<Rightarrow>
          (Inr (PDict
             [(''success'', PBool False),
              (''message'', PStr (''Search operation failed: '' @ exn_str e)),
              (''error'', PStr (exn_str e)),
              (''traceback'', PStr (format_exc w e))]),
           st'))"

section \<open>Envelopes and traces\<close>

text \<open>
  A well-formed envelope: a dict whose \<^verbatim>\<open>success\<close> is a boolean and, when that is
  true, without the keys \<^verbatim>\<open>error\<close> and \<^verbatim>\<open>traceback\<close>.
\<close>

definition envelope_ok :: "pyval \<Rightarrow> bool" where
  "envelope_ok env =
     (case env of
        PDict kvs \<Rightarrow>
          (case map_of kvs ''success'' of
             Some (PBool b) \<Rightarrow>
               (if b then ''error'' \<notin> set (map fst kvs) \<and> ''traceback'' \<notin> set (map fst kvs)
                else True)
           | _ \<Rightarrow> False)
      | _ \<Rightarrow> False)"

definition is_failure :: "pyval \<Rightarrow> bool" where
  "is_failure env = (dict_get env ''success'' PNone = PBool False)"


fun is_pull :: "event \<Rightarrow> bool" where
  "is_pull (Pull _ _ _ _) = True"
| "is_pull _ = False"


section \<open>A sample world\<close>

text \<open>
  A world for running the model on concrete inputs: the login succeeds, one sensor name
  has two matches and another none, \<^verbatim>\<open>pd.to_datetime\<close> knows four strings and no
  explicit layout or \<^verbatim>\<open>dateutil\<close> parse succeeds.
\<close>

definition sample_to_datetime :: "pyval \<Rightarrow> exn + pdtime" where
  "sample_to_datetime x =
     (if x = PStr ''2025-09-01''
        then Inr (PdTimestamp \<lparr>ts_wall = wall_ns 2025 9 1 0 0 0, ts_tz = None\<rparr>)
      else if x = PStr ''2025-09-02''
        then Inr (PdTimestamp \<lparr>ts_wall = wall_ns 2025 9 2 0 0 0, ts_tz = None\<rparr>)
      else if x = PStr ''2025-09-01T00:00:00+05:00''
        then Inr (PdTimestamp \<lparr>ts_wall = wall_ns 2025 9 1 0 0 0,
                  ts_tz = Some \<lparr>tz_name = ''UTC+05:00'', utcoffset = 18000\<rparr>\<rparr>)
      else if x = PStr ''NaT'' then Inr PdNaT
      else Inl (Exn ValueError ''Unknown datetime string format''))"

definition sample_search :: "event list \<Rightarrow> pyval \<Rightarrow> exn + frame" where
  "sample_search h n =
     (if n = PStr ''TEMP.1'' then
        Inr [[(''Name'', PStr ''TEMP.1''), (''ID'', PStr ''id-1''), (''Type'', PStr ''StoredSignal'')],
             [(''Name'', PStr ''TEMP.1''), (''ID'', PStr ''id-2''), (''Type'', PStr ''StoredSignal'')]]
      else if n = PStr ''FLOW.2'' then
        Inr [[(''Name'', PStr ''FLOW.2''), (''ID'', PStr ''id-3''), (''Type'', PStr ''StoredSignal'')]]
      else Inr [])"

definition sample_pull :: "event list \<Rightarrow> frame \<Rightarrow> dtval \<Rightarrow> dtval \<Rightarrow> pyval \<Rightarrow> exn + pulled" where
  "sample_pull h fr s e g =
     Inr \<lparr>pf_records =
            [[(''index'', PTimestamp \<lparr>ts_wall = wall_ns 2025 9 1 0 0 0, ts_tz = Some tz_UTC\<rparr>),
              (''TEMP.1'', PFloat FNaN)]],
          pf_columns = PList [PStr ''TEMP.1''],
          pf_index = PList [PStr ''2025-09-01 00:00:00+00:00'']\<rparr>"

definition sample_world :: world where
  "sample_world =
     \<lparr>set_compatibility = None,
      has_server_option = True,
      set_server = (\<lambda>u. None),
      spy_login = (\<lambda>h u k p i. Inr (PStr ''operator'')),
      spy_search = sample_search,
      assign_nonscalar = (\<lambda>fr k v. Inl (Exn ValueError ''Length of values does not match'')),
      spy_pull = sample_pull,
      to_datetime = sample_to_datetime,
      to_datetime_format = (\<lambda>fmt x. Inl (Exn ValueError ''time data does not match format'')),
      str_to_float = (\<lambda>s. if s = ''45292'' then Some (FFin 45292)
                           else if s = ''45292.5'' then Some (FFin (90585 / 2)) else None),
      dateutil_parse = (\<lambda>x. if x = PStr ''Tuesday'' then Inr 0
                            else Inl (Exn ValueError ''Unknown string format'')),
      tz_lookup = (\<lambda>z v. if z = PStr ''UTC'' then Inr tz_UTC
                          else Inl (Exn LibraryError ''UnknownTimeZoneError'')),
      format_exc = (\<lambda>e. ''Traceback (most recent call last)''),
      str_other = (\<lambda>v. ''object'')\<rparr>"

text \<open>The sample world with one explicit layout that parses one string.\<close>

definition layout_world :: world where
  "layout_world =
     sample_world\<lparr>to_datetime_format :=
       (\<lambda>fmt x. if fmt = ''%d/%m/%Y'' \<and> x = PStr ''31/12/2025''
                 then Inr (PdTimestamp \<lparr>ts_wall = wall_ns 2025 12 31 0 0 0, ts_tz = None\<rparr>)
                 else Inl (Exn ValueError ''time data does not match format''))\<rparr>"

definition initial_state :: state where
  "initial_state =
     \<lparr>spy_user = PNone,
      spy_server = PNone,
      auth = \<lparr>is_authenticated = False, as_url = PNone, as_access_key = PNone,
              as_password = PNone, as_auth_provider = PStr ''Seeq'',
              as_ignore_ssl_errors = False\<rparr>,
      calls = []\<rparr>"

text \<open>A call of \<^verbatim>\<open>search_and_pull_sensors\<close> in the sample world, with credentials.\<close>

definition sample_run ::
  "pyval \<Rightarrow> pyval \<Rightarrow> pyval \<Rightarrow> pyval \<Rightarrow> (exn + pyval) \<times> state" where
  "sample_run sensor_names start_datetime end_datetime timezone =
     search_and_pull_sensors sample_world sensor_names start_datetime end_datetime
       (PStr ''15min'') timezone (PStr ''https://seeq.example'') (PStr ''key'') (PStr ''secret'')
       (PStr ''Seeq'') (PBool False) initial_state"

section \<open>Properties of the sanitizer\<close>

lemma sequence_sum_Inr:
  "sequence_sum rs = Inr ys \<Longrightarrow> list_all2 (\<lambda>r y. r = Inr y) rs ys"
proof (induction rs arbitrary: ys rule: sequence_sum.induct)
  case 1
  then show ?case by simp
next
  case (2 e uu)
  then show ?case by simp
next
  case (3 x rs)
  then show ?case by (auto split: sum.splits)
qed

lemma sequence_sum_all_Inr:
  "list_all2 (\<lambda>r y. r = Inr y) rs ys \<Longrightarrow> sequence_sum rs = Inr ys"
  by (induction rs ys rule: list_all2_induct) auto

text \<open>A sanitized list is the list of the sanitized elements; likewise for a dict, whose keys stay.\<close>

lemma clean_list_Inr:
  assumes "clean_for_json (PList xs) = Inr y"
  shows "\<exists>ys. y = PList ys \<and> list_all2 (\<lambda>x y. clean_for_json x = Inr y) xs ys"
proof -
  from assms obtain ys where s: "sequence_sum (map clean_for_json xs) = Inr ys"
    and y: "y = PList ys"
    by (auto split: sum.splits)
  from sequence_sum_Inr[OF s] have "list_all2 (\<lambda>x y. clean_for_json x = Inr y) xs ys"
    by (simp add: list_all2_map1)
  with y show ?thesis by blast
qed

lemma clean_dict_Inr:
  assumes "clean_for_json (PDict kvs) = Inr y"
  shows "\<exists>kvs'. y = PDict kvs' \<and>
     list_all2 (\<lambda>kv kv'. fst kv' = fst kv \<and> clean_for_json (snd kv) = Inr (snd kv')) kvs kvs'"
proof -
  let ?f = "\<lambda>kv. case kv of (k, v) \<Rightarrow>
              (case clean_for_json v of Inl e \<Rightarrow> Inl e | Inr v' \<Rightarrow> Inr (k, v'))"
  from assms obtain kvs' where s: "sequence_sum (map ?f kvs) = Inr kvs'" and y: "y = PDict kvs'"
    by (auto split: sum.splits)
  from sequence_sum_Inr[OF s] have "list_all2 (\<lambda>kv kv'. ?f kv = Inr kv') kvs kvs'"
    by (simp add: list_all2_map1)
  then have "list_all2 (\<lambda>kv kv'. fst kv' = fst kv \<and> clean_for_json (snd kv) = Inr (snd kv'))
               kvs kvs'"
    by (rule list_all2_mono) (auto split: sum.splits prod.splits)
  with y show ?thesis by blast
qed

text \<open>The value at a position of the output is the sanitized value at that position of the input.\<close>

lemma clean_at_path:
  "clean_for_json x = Inr y \<Longrightarrow> at_path p x = Some v
     \<Longrightarrow> \<exists>v'. at_path p y = Some v' \<and> clean_for_json v = Inr v'"
proof (induction p arbitrary: x y)
  case Nil
  then show ?case by simp
next
  case (Cons i p)
  show ?case
  proof (cases x)
    case (PList xs)
    with Cons.prems obtain ys where y: "y = PList ys"
      and l: "list_all2 (\<lambda>x y. clean_for_json x = Inr y) xs ys"
      using clean_list_Inr by blast
    from Cons.prems(2) PList have i: "i < length xs" and a: "at_path p (xs ! i) = Some v"
      by (auto split: if_splits)
    from l i have "clean_for_json (xs ! i) = Inr (ys ! i)" "i < length ys"
      by (auto simp: list_all2_conv_all_nth)
    with Cons.IH a show ?thesis by (simp add: y)
  next
    case (PDict kvs)
    with Cons.prems obtain kvs' where y: "y = PDict kvs'"
      and l: "list_all2 (\<lambda>kv kv'. fst kv' = fst kv \<and> clean_for_json (snd kv) = Inr (snd kv'))
                kvs kvs'"
      using clean_dict_Inr by blast
    from Cons.prems(2) PDict have i: "i < length kvs"
      and a: "at_path p (snd (kvs ! i)) = Some v"
      by (auto split: if_splits)
    from l i have "clean_for_json (snd (kvs ! i)) = Inr (snd (kvs' ! i))" "i < length kvs'"
      by (auto simp: list_all2_conv_all_nth)
    with Cons.IH a show ?thesis by (simp add: y)
  qed (use Cons.prems in auto)
qed


text \<open>Whatever the sanitizer returns, it returns unchanged when it is sanitized again.\<close>

lemma clean_fixpoint: "clean_for_json x = Inr y \<Longrightarrow> clean_for_json y = Inr y"
proof (induction x arbitrary: y rule: clean_for_json.induct)
  case (1 kvs)
  let ?f = "\<lambda>kv. case kv of (k, v) \<Rightarrow>
              (case clean_for_json v of Inl e \<Rightarrow> Inl e | Inr v' \<Rightarrow> Inr (k, v'))"
  from clean_dict_Inr[OF 1(2)] obtain kvs' where y: "y = PDict kvs'"
    and l: "list_all2 (\<lambda>kv kv'. fst kv' = fst kv \<and> clean_for_json (snd kv) = Inr (snd kv'))
              kvs kvs'"
    by blast
  have "list_all2 (\<lambda>r kv'. r = Inr kv') (map ?f kvs') kvs'"
    unfolding list_all2_map1
  proof (rule list_all2_all_nthI)
    show "length kvs' = length kvs'" by simp
  next
    fix n assume n: "n < length kvs'"
    with l have a: "kvs ! n \<in> set kvs"
      and b: "clean_for_json (snd (kvs ! n)) = Inr (snd (kvs' ! n))"
      by (auto simp: list_all2_conv_all_nth)
    have "clean_for_json (snd (kvs' ! n)) = Inr (snd (kvs' ! n))"
      using 1(1)[OF a _ b, of "fst (kvs ! n)"] by simp
    then show "?f (kvs' ! n) = Inr (kvs' ! n)"
      by (cases "kvs' ! n") simp
  qed
  from sequence_sum_all_Inr[OF this] show ?case by (simp add: y)
next
  case (2 xs)
  from clean_list_Inr[OF 2(2)] obtain ys where y: "y = PList ys"
    and l: "list_all2 (\<lambda>x y. clean_for_json x = Inr y) xs ys" by blast
  have "list_all2 (\<lambda>r y'. r = Inr y') (map clean_for_json ys) ys"
    unfolding list_all2_map1
  proof (rule list_all2_all_nthI)
    show "length ys = length ys" by simp
  next
    fix n assume n: "n < length ys"
    with l have a: "xs ! n \<in> set xs" and b: "clean_for_json (xs ! n) = Inr (ys ! n)"
      by (auto simp: list_all2_conv_all_nth)
    show "clean_for_json (ys ! n) = Inr (ys ! n)" using 2(1)[OF a b] .
  qed
  from sequence_sum_all_Inr[OF this] show ?case by (simp add: y)
qed (auto split: if_splits pyfloat.splits option.splits)

text \<open>
  Claim C7, as amended. Wherever a pandas timestamp stands in the input of the sanitizer,
  at any depth of lists and dicts, the output has at that place the string
  \<^verbatim>\<open>%Y-%m-%d %H:%M:%S\<close> of the timestamp: of its own wall-clock reading when it is
  naive, of its reading converted to UTC when it carries a timezone. The timestamp
  2025-09-01T00:00:00+05:00 becomes \<^verbatim>\<open>2025-08-31 19:00:00\<close>.
\<close>

theorem clean_for_json_timestamp_leaf:
  "(clean_for_json x = Inr y \<and> at_path p x = Some (PTimestamp t) \<longrightarrow>
      at_path p y = Some (PStr (format_wall
        (case ts_tz t of
           None \<Rightarrow> ts_wall t
         | Some z \<Rightarrow> ts_wall t - utcoffset z * ns_per_second))))
   \<and> clean_for_json (PTimestamp \<lparr>ts_wall = wall_ns 2025 9 1 0 0 0,
         ts_tz = Some \<lparr>tz_name = ''UTC+05:00'', utcoffset = 18000\<rparr>\<rparr>)
       = Inr (PStr ''2025-08-31 19:00:00'')"
proof (intro conjI impI)
  assume a: "clean_for_json x = Inr y \<and> at_path p x = Some (PTimestamp t)"
  then obtain v' where v: "at_path p y = Some v'" "clean_for_json (PTimestamp t) = Inr v'"
    using clean_at_path by blast
  from v(2) have "v' = PStr (format_wall
        (case ts_tz t of
           None \<Rightarrow> ts_wall t
         | Some z \<Rightarrow> ts_wall t - utcoffset z * ns_per_second))"
    by (auto simp: Timestamp_strftime_def convert_to_utc_def split: option.splits)
  with v(1) show "at_path p y = Some (PStr (format_wall
        (case ts_tz t of
           None \<Rightarrow> ts_wall t
         | Some z \<Rightarrow> ts_wall t - utcoffset z * ns_per_second)))"
    by simp
next
  show "clean_for_json (PTimestamp \<lparr>ts_wall = wall_ns 2025 9 1 0 0 0,
         ts_tz = Some \<lparr>tz_name = ''UTC+05:00'', utcoffset = 18000\<rparr>\<rparr>)
       = Inr (PStr ''2025-08-31 19:00:00'')"
    by code_simp
qed

theorem clean_for_json_timestamp_leaf_witness:
  "clean_for_json (PList [PDict [(''index'', PTimestamp \<lparr>ts_wall = wall_ns 2025 9 1 0 0 0,
         ts_tz = Some \<lparr>tz_name = ''UTC+05:00'', utcoffset = 18000\<rparr>\<rparr>)]])
     = Inr (PList [PDict [(''index'', PStr ''2025-08-31 19:00:00'')]])
   \<and> at_path [0, 0] (PList [PDict [(''index'', PTimestamp \<lparr>ts_wall = wall_ns 2025 9 1 0 0 0,
         ts_tz = Some \<lparr>tz_name = ''UTC+05:00'', utcoffset = 18000\<rparr>\<rparr>)]])
     = Some (PTimestamp \<lparr>ts_wall = wall_ns 2025 9 1 0 0 0,
         ts_tz = Some \<lparr>tz_name = ''UTC+05:00'', utcoffset = 18000\<rparr>\<rparr>)
   \<and> at_path [0, 0] (PList [PDict [(''index'', PStr ''2025-08-31 19:00:00'')]])
     = Some (PStr (format_wall (wall_ns 2025 9 1 0 0 0 - 18000 * ns_per_second)))"
proof -
  let ?t = "\<lparr>ts_wall = wall_ns 2025 9 1 0 0 0,
         ts_tz = Some \<lparr>tz_name = ''UTC+05:00'', utcoffset = 18000\<rparr>\<rparr>"
  let ?x = "PList [PDict [(''index'', PTimestamp ?t)]]"
  let ?y = "PList [PDict [(''index'', PStr ''2025-08-31 19:00:00'')]]"
  have c: "clean_for_json ?x = Inr ?y" by code_simp
  have a: "at_path [0, 0] ?x = Some (PTimestamp ?t)" by simp
  from clean_for_json_timestamp_leaf[of ?x ?y "[0, 0]" ?t] c a
  have "at_path [0, 0] ?y
          = Some (PStr (format_wall (wall_ns 2025 9 1 0 0 0 - 18000 * ns_per_second)))"
    by simp
  with c a show ?thesis by blast
qed

text \<open>
  Claim C7 as stated fails: the not-a-time marker exposes \<^verbatim>\<open>isoformat\<close> and is turned
  into null by the NaN test, which comes first; a \<^verbatim>\<open>datetime.datetime\<close> exposes
  \<^verbatim>\<open>isoformat\<close> too and makes the sanitizer raise.
\<close>

theorem clean_for_json_isoformat_counterexample:
  "has_isoformat PNaT \<and> clean_for_json PNaT = Inr PNone
   \<and> has_isoformat (PDatetime 0) \<and> isl (clean_for_json (PDatetime 0))"
  by simp





text \<open>
  Claim C9. Sanitizing the result of the sanitizer changes nothing: applying it twice
  (the second time to the value the first returned, an exception of the first being kept)
  is the same as applying it once.
\<close>

theorem clean_for_json_idempotent:
  "(case clean_for_json x of Inl e \<Rightarrow> Inl e | Inr y \<Rightarrow> clean_for_json y) = clean_for_json x"
  by (cases "clean_for_json x") (simp_all add: clean_fixpoint)

section \<open>Remote calls and envelopes of the phases\<close>

lemma authenticate_seeq_body_calls:
  "calls (snd (authenticate_seeq_body w url k p prov ig st)) = calls st
   \<or> calls (snd (authenticate_seeq_body w url k p prov ig st))
        = calls st @ [Login url k p (coerce_ignore_ssl_errors ig)]"
  by (auto simp: authenticate_seeq_body_def Let_def split: option.splits sum.splits)

lemma authenticate_seeq_calls:
  "calls (snd (authenticate_seeq w url k p prov ig st)) = calls st
   \<or> calls (snd (authenticate_seeq w url k p prov ig st))
        = calls st @ [Login url k p (coerce_ignore_ssl_errors ig)]"
  using authenticate_seeq_body_calls[of w url k p prov ig st]
  by (auto simp: authenticate_seeq_def split: prod.splits sum.splits)

lemma authenticate_seeq_body_envelope:
  "fst (authenticate_seeq_body w url k p prov ig st) = Inr env \<Longrightarrow> envelope_ok env"
  by (auto simp: authenticate_seeq_body_def Let_def envelope_ok_def
           split: option.splits sum.splits if_splits)

lemma authenticate_seeq_returns:
  "\<exists>env. fst (authenticate_seeq w url k p prov ig st) = Inr env \<and> envelope_ok env"
proof (cases "authenticate_seeq_body w url k p prov ig st")
  case (Pair r st')
  show ?thesis
  proof (cases r)
    case (Inl e)
    with Pair show ?thesis by (simp add: authenticate_seeq_def envelope_ok_def)
  next
    case (Inr env)
    with Pair authenticate_seeq_body_envelope[of w url k p prov ig st env]
    show ?thesis by (simp add: authenticate_seeq_def)
  qed
qed

lemma envelope_ok_success:
  assumes "envelope_ok env"
  shows "\<exists>b. py_getitem env ''success'' = Inr (PBool b)"
proof (cases env)
  case (PDict kvs)
  show ?thesis
  proof (cases "map_of kvs ''success''")
    case None
    with PDict assms show ?thesis by (simp add: envelope_ok_def)
  next
    case (Some v)
    with PDict assms show ?thesis
      by (cases v) (simp_all add: envelope_ok_def py_getitem_def)
  qed
qed (use assms in \<open>simp_all add: envelope_ok_def\<close>)

lemma authenticate_first_cases:
  obtains env st1 where "authenticate_first w url k p prov ig st = (Returned env, st1)"
      "envelope_ok env" "is_failure env"
  | st1 where "authenticate_first w url k p prov ig st = (Go (), st1)"
proof (cases "truthy url \<and> truthy k \<and> truthy p")
  case False
  then have "authenticate_first w url k p prov ig st =
      (Returned (PDict
           [(''success'', PBool False),
            (''message'', PStr ''Authentication credentials are required''),
            (''error'', PStr ''Missing credentials'')]), st)"
    by (auto simp: authenticate_first_def)
  then show ?thesis
    by (rule that(1)) (simp_all add: envelope_ok_def is_failure_def dict_get_def)
next
  case True
  obtain r st1 where a: "authenticate_seeq w url k p prov ig st = (r, st1)" by force
  with authenticate_seeq_returns[of w url k p prov ig st]
  obtain env where r: "r = Inr env" and ok: "envelope_ok env" by auto
  from envelope_ok_success[OF ok] obtain b where b: "py_getitem env ''success'' = Inr (PBool b)" ..
  show ?thesis
  proof (cases b)
    case False
    with \<open>truthy url \<and> truthy k \<and> truthy p\<close> a r b
    have "authenticate_first w url k p prov ig st =
      (Returned (PDict
         [(''success'', PBool False),
          (''message'', PStr (''Authentication failed: ''
              @ py_str w (dict_get env ''error'' (PStr ''Unknown error'')))),
          (''error'', PStr ''Authentication required''),
          (''auth_details'', env)]), st1)"
      by (simp add: authenticate_first_def)
    then show ?thesis
      by (rule that(1)) (simp_all add: envelope_ok_def is_failure_def dict_get_def)
  next
    case True
    show ?thesis
    proof (cases "spy_user st1 = PNone")
      case True
      with \<open>b\<close> \<open>truthy url \<and> truthy k \<and> truthy p\<close> a r b
      have "authenticate_first w url k p prov ig st =
        (Returned (PDict
           [(''success'', PBool False),
            (''message'',
               PStr ''Authentication appeared successful but spy.user is still None''),
            (''error'', PStr ''Authentication state issue'')]), st1)"
        by (simp add: authenticate_first_def)
      then show ?thesis
        by (rule that(1)) (simp_all add: envelope_ok_def is_failure_def dict_get_def)
    next
      case False
      with \<open>b\<close> \<open>truthy url \<and> truthy k \<and> truthy p\<close> a r b
      have "authenticate_first w url k p prov ig st = (Go (), st1)"
        by (simp add: authenticate_first_def)
      then show ?thesis by (rule that(2))
    qed
  qed
qed

lemma authenticate_first_calls:
  "calls (snd (authenticate_first w url k p prov ig st)) = calls st
   \<or> calls (snd (authenticate_first w url k p prov ig st))
        = calls st @ [Login url k p (coerce_ignore_ssl_errors ig)]"
  using authenticate_seeq_calls[of w url k p prov ig st]
  by (auto simp: authenticate_first_def split: prod.splits sum.splits)

lemma authenticate_seeq_calls_exact:
  "calls (snd (authenticate_seeq w url k p prov ig st))
     = (if reaches_login w
        then calls st @ [Login url k p (coerce_ignore_ssl_errors ig)] else calls st)"
  by (auto simp: authenticate_seeq_def authenticate_seeq_body_def reaches_login_def Let_def
      split: option.splits sum.splits prod.splits)




lemma search_loop_length: "length (fst (search_loop w names st)) = length names"
proof (induction names arbitrary: st)
  case Nil
  then show ?case by simp
next
  case (Cons n names)
  obtain fr st1 where s: "search_one w n st = (fr, st1)" by force
  obtain frs st2 where l: "search_loop w names st1 = (frs, st2)" by force
  from Cons.IH[of st1] l have "length frs = length names" by simp
  with s l show ?case by simp
qed



lemma pull_phase_envelope: "envelope_ok (fst (pull_phase w comb valid s e g sd ed st))"
  by (auto simp: pull_phase_def pull_and_clean_def Let_def envelope_ok_def
           split: prod.splits sum.splits)



lemma resolve_time_range_not_Raised: "resolve_time_range w sd ed tz \<noteq> Raised e"
  by (auto simp: resolve_time_range_def split: sum.splits option.splits)

lemma resolve_time_range_Returned:
  assumes "resolve_time_range w sd ed tz = Returned env"
  shows "envelope_ok env \<and> is_failure env"
  using assms
  by (auto simp: resolve_time_range_def envelope_ok_def is_failure_def dict_get_def
        missing_datetime_envelope_def invalid_datetime_envelope_def
      split: sum.splits option.splits)





lemma authenticate_first_Returned:
  assumes "authenticate_first w url k p prov ig st = (Returned env, st1)"
  shows "envelope_ok env \<and> is_failure env"
proof (rule authenticate_first_cases[of w url k p prov ig st])
  fix env' st1'
  assume "authenticate_first w url k p prov ig st = (Returned env', st1')"
    "envelope_ok env'" "is_failure env'"
  with assms show ?thesis by simp
next
  fix st1'
  assume "authenticate_first w url k p prov ig st = (Go (), st1')"
  with assms show ?thesis by simp
qed

lemma authenticate_first_not_Raised:
  "authenticate_first w url k p prov ig st \<noteq> (Raised e, st1)"
proof (rule authenticate_first_cases[of w url k p prov ig st])
  fix env' st1'
  assume "authenticate_first w url k p prov ig st = (Returned env', st1')"
  then show ?thesis by simp
next
  fix st1'
  assume "authenticate_first w url k p prov ig st = (Go (), st1')"
  then show ?thesis by simp
qed

lemma pull_phase_envelope':
  "pull_phase w comb valid s e g sd ed st = (res, st') \<Longrightarrow> envelope_ok res"
  using pull_phase_envelope[of w comb valid s e g sd ed st] by simp

lemma search_and_pull_sensors_body_envelope:
  assumes "fst (search_and_pull_sensors_body w sn sd ed g tz url k p prov ig st) = Inr env"
  shows "envelope_ok env"
  using assms
  by (auto simp: search_and_pull_sensors_body_def Let_def envelope_ok_def[of "PDict _"]
      split: prod.splits flow.splits sum.splits if_splits
      dest: authenticate_first_Returned resolve_time_range_Returned pull_phase_envelope')

lemma search_and_pull_sensors_body_date_failure:
  assumes "resolve_time_range w sd ed tz = Returned env0"
  shows "\<exists>env. fst (search_and_pull_sensors_body w sn sd ed g tz url k p prov ig st) = Inr env
           \<and> is_failure env"
  using assms
  by (auto simp: search_and_pull_sensors_body_def authenticate_first_not_Raised
      split: prod.splits flow.splits
      dest: authenticate_first_Returned resolve_time_range_Returned)

lemma search_sensors_only_body_envelope:
  assumes "fst (search_sensors_only_body w sn url k p prov ig st) = Inr env"
  shows "envelope_ok env"
  using assms
  by (auto simp: search_sensors_only_body_def Let_def envelope_ok_def[of "PDict _"]
      split: prod.splits flow.splits sum.splits if_splits
      dest: authenticate_first_Returned)

section \<open>Dates that do not parse\<close>

lemma search_and_pull_sensors_snd:
  "snd (search_and_pull_sensors w sn sd ed g tz url k p prov ig st)
     = snd (search_and_pull_sensors_body w sn sd ed g tz url k p prov ig st)"
  by (auto simp: search_and_pull_sensors_def split: prod.splits sum.splits)

lemma search_and_pull_sensors_Inr:
  "fst (search_and_pull_sensors_body w sn sd ed g tz url k p prov ig st) = Inr env
     \<Longrightarrow> fst (search_and_pull_sensors w sn sd ed g tz url k p prov ig st) = Inr env"
  by (auto simp: search_and_pull_sensors_def split: prod.splits sum.splits)

lemma parse_never_raises: "\<not> isl (parse_excel_friendly_datetime w raw)"
  by (auto simp: parse_excel_friendly_datetime_def split: sum.splits option.splits)

lemma parse_unparseable:
  "\<not> truthy raw \<or> all_strategies_fail w raw \<Longrightarrow> parse_excel_friendly_datetime w raw = Inr None"
  by (auto simp: parse_excel_friendly_datetime_def all_strategies_fail_def isl_def
      split: sum.splits option.splits)

lemma resolve_time_range_None:
  assumes "parse_excel_friendly_datetime w sd = Inr None
           \<or> parse_excel_friendly_datetime w ed = Inr None"
  shows "resolve_time_range w sd ed tz = Returned missing_datetime_envelope"
  using assms parse_never_raises[of w sd] parse_never_raises[of w ed]
  by (auto simp: resolve_time_range_def isl_def split: sum.splits option.splits)


lemma date_failure_run:
  assumes "resolve_time_range w sd ed tz = Returned env0"
  shows "(\<exists>env. fst (search_and_pull_sensors w sn sd ed g tz url k p prov ig st) = Inr env
            \<and> is_failure env)
       \<and> (calls (snd (search_and_pull_sensors w sn sd ed g tz url k p prov ig st)) = calls st
          \<or> calls (snd (search_and_pull_sensors w sn sd ed g tz url k p prov ig st))
               = calls st @ [Login url k p (coerce_ignore_ssl_errors ig)])"
proof -
  from search_and_pull_sensors_body_date_failure[OF assms]
  obtain env where e: "fst (search_and_pull_sensors_body w sn sd ed g tz url k p prov ig st) = Inr env"
    "is_failure env" by blast
  have c: "calls (snd (search_and_pull_sensors_body w sn sd ed g tz url k p prov ig st))
             = calls (snd (authenticate_first w url k p prov ig st))"
    using assms
    by (auto simp: search_and_pull_sensors_body_def split: prod.splits flow.splits)
  from e c authenticate_first_calls[of w url k p prov ig st] show ?thesis
    by (simp add: search_and_pull_sensors_Inr search_and_pull_sensors_snd)
qed

text \<open>
  Claim C2, as amended. On an empty or null input the date parser returns \<^verbatim>\<open>None\<close>
  (it does not raise). When the start or the end is empty or null and the authentication
  has gone through, \<^verbatim>\<open>search_and_pull_sensors\<close> returns the failure envelope whose error
  is \<^verbatim>\<open>Missing datetime values\<close>. Whenever the start or the end is empty, null, or
  fails all four strategies, the operation returns an envelope whose \<^verbatim>\<open>success\<close> is
  false, and it has made no remote call but at most the login: no search and no pull, so
  no instant is put in the place of the missing one.
\<close>

theorem parse_failure_envelope:
  "(\<not> truthy raw \<longrightarrow> parse_excel_friendly_datetime w raw = Inr None)
   \<and> ((\<not> truthy sd \<or> \<not> truthy ed) \<and> authenticate_first w url k p prov ig st = (Go (), st1) \<longrightarrow>
        search_and_pull_sensors w sn sd ed g tz url k p prov ig st
          = (Inr missing_datetime_envelope, st1))
   \<and> (\<not> truthy sd \<or> all_strategies_fail w sd \<or> \<not> truthy ed \<or> all_strategies_fail w ed \<longrightarrow>
        (\<exists>env. fst (search_and_pull_sensors w sn sd ed g tz url k p prov ig st) = Inr env
            \<and> is_failure env)
        \<and> (calls (snd (search_and_pull_sensors w sn sd ed g tz url k p prov ig st)) = calls st
           \<or> calls (snd (search_and_pull_sensors w sn sd ed g tz url k p prov ig st))
                = calls st @ [Login url k p (coerce_ignore_ssl_errors ig)]))"
proof -
  have 1: "\<not> truthy raw \<longrightarrow> parse_excel_friendly_datetime w raw = Inr None"
    by (simp add: parse_unparseable)
  have 2: "search_and_pull_sensors w sn sd ed g tz url k p prov ig st
          = (Inr missing_datetime_envelope, st1)"
    if a: "(\<not> truthy sd \<or> \<not> truthy ed) \<and> authenticate_first w url k p prov ig st = (Go (), st1)"
  proof -
    from a have "parse_excel_friendly_datetime w sd = Inr None
           \<or> parse_excel_friendly_datetime w ed = Inr None"
      using parse_unparseable[of sd w] parse_unparseable[of ed w] by blast
    from resolve_time_range_None[OF this] a show ?thesis
      by (simp add: search_and_pull_sensors_def search_and_pull_sensors_body_def)
  qed
  have 3: "(\<exists>env. fst (search_and_pull_sensors w sn sd ed g tz url k p prov ig st) = Inr env
            \<and> is_failure env)
        \<and> (calls (snd (search_and_pull_sensors w sn sd ed g tz url k p prov ig st)) = calls st
           \<or> calls (snd (search_and_pull_sensors w sn sd ed g tz url k p prov ig st))
                = calls st @ [Login url k p (coerce_ignore_ssl_errors ig)])"
    if "\<not> truthy sd \<or> all_strategies_fail w sd \<or> \<not> truthy ed \<or> all_strategies_fail w ed"
  proof -
    from that have "parse_excel_friendly_datetime w sd = Inr None
           \<or> parse_excel_friendly_datetime w ed = Inr None"
      using parse_unparseable[of sd w] parse_unparseable[of ed w] by blast
    from date_failure_run[OF resolve_time_range_None[OF this]] show ?thesis .
  qed
  from 1 2 3 show ?thesis by blast
qed

theorem parse_failure_envelope_witness:
  "\<not> truthy (PStr '''')
   \<and> parse_excel_friendly_datetime sample_world (PStr '''') = Inr None
   \<and> authenticate_first sample_world (PStr ''https://seeq.example'') (PStr ''key'')
        (PStr ''secret'') (PStr ''Seeq'') (PBool False) initial_state
       = (Go (), \<lparr>spy_user = PStr ''operator'', spy_server = PStr ''https://seeq.example'',
            auth = \<lparr>is_authenticated = True, as_url = PStr ''https://seeq.example'',
                    as_access_key = PStr ''key'', as_password = PStr ''secret'',
                    as_auth_provider = PStr ''Seeq'', as_ignore_ssl_errors = False\<rparr>,
            calls = [Login (PStr ''https://seeq.example'') (PStr ''key'') (PStr ''secret'') False]\<rparr>)
   \<and> sample_run (PList [PStr ''TEMP.1'']) (PStr '''') (PStr ''2025-09-02'') PNone
       = (Inr missing_datetime_envelope,
          \<lparr>spy_user = PStr ''operator'', spy_server = PStr ''https://seeq.example'',
            auth = \<lparr>is_authenticated = True, as_url = PStr ''https://seeq.example'',
                    as_access_key = PStr ''key'', as_password = PStr ''secret'',
                    as_auth_provider = PStr ''Seeq'', as_ignore_ssl_errors = False\<rparr>,
            calls = [Login (PStr ''https://seeq.example'') (PStr ''key'') (PStr ''secret'') False]\<rparr>)
   \<and> all_strategies_fail sample_world (PStr ''soon'')
   \<and> (\<exists>env. fst (sample_run (PList [PStr ''TEMP.1'']) (PStr ''2025-09-01'') (PStr ''soon'') PNone)
          = Inr env \<and> is_failure env)"
proof -
  let ?st1 = "\<lparr>spy_user = PStr ''operator'', spy_server = PStr ''https://seeq.example'',
            auth = \<lparr>is_authenticated = True, as_url = PStr ''https://seeq.example'',
                    as_access_key = PStr ''key'', as_password = PStr ''secret'',
                    as_auth_provider = PStr ''Seeq'', as_ignore_ssl_errors = False\<rparr>,
            calls = [Login (PStr ''https://seeq.example'') (PStr ''key'') (PStr ''secret'') False]\<rparr>"
  have t: "\<not> truthy (PStr '''')" by simp
  have a: "authenticate_first sample_world (PStr ''https://seeq.example'') (PStr ''key'')
        (PStr ''secret'') (PStr ''Seeq'') (PBool False) initial_state = (Go (), ?st1)"
    by code_simp
  have f: "all_strategies_fail sample_world (PStr ''soon'')" by code_simp
  note th1 = parse_failure_envelope[of "PStr ''''" sample_world "PStr ''''" "PStr ''2025-09-02''"
      "PStr ''https://seeq.example''" "PStr ''key''" "PStr ''secret''" "PStr ''Seeq''"
      "PBool False" initial_state ?st1 "PList [PStr ''TEMP.1'']" "PStr ''15min''" PNone]
  note th2 = parse_failure_envelope[of "PStr ''''" sample_world "PStr ''2025-09-01''" "PStr ''soon''"
      "PStr ''https://seeq.example''" "PStr ''key''" "PStr ''secret''" "PStr ''Seeq''"
      "PBool False" initial_state ?st1 "PList [PStr ''TEMP.1'']" "PStr ''15min''" PNone]
  from th1 t have p: "parse_excel_friendly_datetime sample_world (PStr '''') = Inr None" by blast
  from th1 t a have r: "sample_run (PList [PStr ''TEMP.1'']) (PStr '''') (PStr ''2025-09-02'') PNone
       = (Inr missing_datetime_envelope, ?st1)"
    unfolding sample_run_def by blast
  from th2 f have e: "\<exists>env. fst (sample_run (PList [PStr ''TEMP.1'']) (PStr ''2025-09-01'')
          (PStr ''soon'') PNone) = Inr env \<and> is_failure env"
    unfolding sample_run_def by blast
  from t p a r f e show ?thesis by blast
qed


text \<open>
  Claim C2 as stated fails: on the empty string and on null the parser does not fail
  with an error, it returns \<^verbatim>\<open>None\<close>.
\<close>

theorem parse_returns_none_counterexample:
  "parse_excel_friendly_datetime sample_world (PStr '''') = Inr None
   \<and> parse_excel_friendly_datetime sample_world PNone = Inr None"
  by code_simp

section \<open>A time range that does not resolve\<close>








section \<open>The order of the parsing strategies\<close>

lemma try_formats_None_iff:
  "try_formats w fmts raw = None \<longleftrightarrow> (\<forall>fmt\<in>set fmts. isl (to_datetime_format w fmt raw))"
  by (induction fmts) (auto split: sum.splits)

lemma try_formats_Some:
  "try_formats w fmts raw = Some r \<Longrightarrow> \<exists>fmt\<in>set fmts. to_datetime_format w fmt raw = Inr r"
  by (induction fmts) (auto split: sum.splits)

lemma serial_ns_of_int: "serial_ns (of_int n) = n * ns_per_day"
proof -
  have "(of_int n :: rat) * 24 * 3600 * 1000000000 = of_int (n * 86400000000000)" by simp
  then show ?thesis
    unfolding serial_ns_def py_int_of_rat_def ns_per_day_def ns_per_second_def
    by (simp only: floor_of_int ceiling_of_int if_cancel)
qed

lemma excel_serial_parse_finite:
  assumes "py_float w raw = Inr (FFin q)" "serial_in_range q"
  shows "excel_serial_parse w raw
           = Inr \<lparr>ts_wall = wall_ns 1899 12 30 0 0 0 + serial_ns q, ts_tz = None\<rparr>"
  using assms
  by (simp add: excel_serial_parse_def Timedelta_days_def excel_epoch_plus_def Let_def
        serial_in_range_def serial_ns_def excel_epoch_def)

text \<open>
  Claim C4. On a non-empty input: when the free-form parse succeeds its result is
  returned; when it fails and some explicit layout parses, the result is that of an
  explicit layout, whatever the input is worth as a number; only when the free-form
  parse and all nine layouts fail is the input read as a serial number of days, and the
  result is then 1899-12-30 00:00:00 plus that many days, a fraction of a day included
  (for serials that stay in the 64-bit range). So the string \<^verbatim>\<open>45292\<close>, which pandas
  parses neither free-form nor by a layout and \<^verbatim>\<open>float\<close> reads as 45292, gives the
  epoch plus 45292 days.
\<close>

theorem excel_serial_after_layouts:
  assumes "truthy raw"
  shows "(to_datetime w raw = Inr r \<longrightarrow>
            parse_excel_friendly_datetime w raw = Inr (Some (of_pandas r)))
    \<and> (isl (to_datetime w raw) \<and> (\<exists>fmt\<in>set excel_formats. \<not> isl (to_datetime_format w fmt raw)) \<longrightarrow>
         (\<exists>fmt\<in>set excel_formats. \<exists>r'. to_datetime_format w fmt raw = Inr r'
             \<and> parse_excel_friendly_datetime w raw = Inr (Some (of_pandas r'))))
    \<and> (isl (to_datetime w raw) \<and> (\<forall>fmt\<in>set excel_formats. isl (to_datetime_format w fmt raw))
          \<and> py_float w raw = Inr (FFin q) \<and> serial_in_range q \<longrightarrow>
         parse_excel_friendly_datetime w raw
           = Inr (Some (Stamp \<lparr>ts_wall = wall_ns 1899 12 30 0 0 0 + serial_ns q, ts_tz = None\<rparr>)))
    \<and> (raw = PStr ''45292'' \<and> isl (to_datetime w raw)
          \<and> (\<forall>fmt\<in>set excel_formats. isl (to_datetime_format w fmt raw))
          \<and> str_to_float w ''45292'' = Some (FFin 45292) \<longrightarrow>
         parse_excel_friendly_datetime w raw
           = Inr (Some (Stamp \<lparr>ts_wall = wall_ns 1899 12 30 0 0 0 + 45292 * ns_per_day,
                               ts_tz = None\<rparr>)))"
proof -
  have 1: "parse_excel_friendly_datetime w raw = Inr (Some (of_pandas r))"
    if "to_datetime w raw = Inr r"
    using that assms by (simp add: parse_excel_friendly_datetime_def)
  have 2: "\<exists>fmt\<in>set excel_formats. \<exists>r'. to_datetime_format w fmt raw = Inr r'
             \<and> parse_excel_friendly_datetime w raw = Inr (Some (of_pandas r'))"
    if a: "isl (to_datetime w raw) \<and> (\<exists>fmt\<in>set excel_formats. \<not> isl (to_datetime_format w fmt raw))"
  proof -
    from a try_formats_None_iff[of w excel_formats raw]
    obtain r' where t: "try_formats w excel_formats raw = Some r'" by auto
    with a assms have "parse_excel_friendly_datetime w raw = Inr (Some (of_pandas r'))"
      by (auto simp: parse_excel_friendly_datetime_def isl_def)
    with try_formats_Some[OF t] show ?thesis by blast
  qed
  have 3: "parse_excel_friendly_datetime w raw
           = Inr (Some (Stamp \<lparr>ts_wall = wall_ns 1899 12 30 0 0 0 + serial_ns q', ts_tz = None\<rparr>))"
    if a: "isl (to_datetime w raw) \<and> (\<forall>fmt\<in>set excel_formats. isl (to_datetime_format w fmt raw))
          \<and> py_float w raw = Inr (FFin q') \<and> serial_in_range q'" for q'
  proof -
    from a have "try_formats w excel_formats raw = None"
      by (simp add: try_formats_None_iff)
    moreover from a have "excel_serial_parse w raw
           = Inr \<lparr>ts_wall = wall_ns 1899 12 30 0 0 0 + serial_ns q', ts_tz = None\<rparr>"
      by (simp add: excel_serial_parse_finite)
    ultimately show ?thesis using a assms
      by (auto simp: parse_excel_friendly_datetime_def isl_def)
  qed
  have r45292: "serial_in_range 45292"
    unfolding serial_in_range_def using serial_ns_of_int[of 45292]
    by (simp add: int64_max_def excel_epoch_def wall_ns_def days_from_civil_def
          ns_per_day_def ns_per_second_def)
  have 4: "parse_excel_friendly_datetime w raw
           = Inr (Some (Stamp \<lparr>ts_wall = wall_ns 1899 12 30 0 0 0 + 45292 * ns_per_day,
                               ts_tz = None\<rparr>))"
    if a: "raw = PStr ''45292'' \<and> isl (to_datetime w raw)
          \<and> (\<forall>fmt\<in>set excel_formats. isl (to_datetime_format w fmt raw))
          \<and> str_to_float w ''45292'' = Some (FFin 45292)"
  proof -
    from a have "py_float w raw = Inr (FFin 45292)" by (simp add: py_float_def)
    with a r45292 3[of 45292]
    have "parse_excel_friendly_datetime w raw
           = Inr (Some (Stamp \<lparr>ts_wall = wall_ns 1899 12 30 0 0 0 + serial_ns 45292,
                               ts_tz = None\<rparr>))"
      by blast
    moreover have "serial_ns 45292 = 45292 * ns_per_day"
      using serial_ns_of_int[of 45292] by simp
    ultimately show ?thesis by simp
  qed
  from 1 2 3[of q] 4 show ?thesis by blast
qed

theorem excel_serial_after_layouts_witness:
  "truthy (PStr ''45292'')
   \<and> isl (to_datetime sample_world (PStr ''45292''))
   \<and> list_all (\<lambda>fmt. isl (to_datetime_format sample_world fmt (PStr ''45292''))) excel_formats
   \<and> str_to_float sample_world ''45292'' = Some (FFin 45292)
   \<and> parse_excel_friendly_datetime sample_world (PStr ''45292'')
       = Inr (Some (Stamp \<lparr>ts_wall = wall_ns 1899 12 30 0 0 0 + 45292 * ns_per_day,
                           ts_tz = None\<rparr>))
   \<and> wall_ns 1899 12 30 0 0 0 + 45292 * ns_per_day = wall_ns 2024 1 1 0 0 0
   \<and> py_float sample_world (PStr ''45292.5'') = Inr (FFin (90585 / 2))
   \<and> serial_in_range (90585 / 2)
   \<and> parse_excel_friendly_datetime sample_world (PStr ''45292.5'')
       = Inr (Some (Stamp \<lparr>ts_wall = wall_ns 1899 12 30 0 0 0 + serial_ns (90585 / 2),
                           ts_tz = None\<rparr>))
   \<and> wall_ns 1899 12 30 0 0 0 + serial_ns (90585 / 2) = wall_ns 2024 1 1 12 0 0
   \<and> parse_excel_friendly_datetime sample_world (PStr ''2025-09-01'')
       = Inr (Some (Stamp \<lparr>ts_wall = wall_ns 2025 9 1 0 0 0, ts_tz = None\<rparr>))
   \<and> str_to_float layout_world ''31/12/2025'' = None
   \<and> parse_excel_friendly_datetime layout_world (PStr ''31/12/2025'')
       = Inr (Some (Stamp \<lparr>ts_wall = wall_ns 2025 12 31 0 0 0, ts_tz = None\<rparr>))"
proof -
  have t1: "truthy (PStr ''45292'')" and t2: "truthy (PStr ''45292.5'')"
    and t3: "truthy (PStr ''2025-09-01'')" and t4: "truthy (PStr ''31/12/2025'')"
    by simp_all
  have f1: "isl (to_datetime sample_world (PStr ''45292''))" by code_simp
  have f2: "isl (to_datetime sample_world (PStr ''45292.5''))" by code_simp
  have l1: "list_all (\<lambda>fmt. isl (to_datetime_format sample_world fmt (PStr ''45292''))) excel_formats"
    by code_simp
  have l2: "list_all (\<lambda>fmt. isl (to_datetime_format sample_world fmt (PStr ''45292.5''))) excel_formats"
    by code_simp
  have s1: "str_to_float sample_world ''45292'' = Some (FFin 45292)" by code_simp
  have p2: "py_float sample_world (PStr ''45292.5'') = Inr (FFin (90585 / 2))" by code_simp
  have r2: "serial_in_range (90585 / 2)" by code_simp
  have w1: "wall_ns 1899 12 30 0 0 0 + 45292 * ns_per_day = wall_ns 2024 1 1 0 0 0" by code_simp
  have w2: "wall_ns 1899 12 30 0 0 0 + serial_ns (90585 / 2) = wall_ns 2024 1 1 12 0 0"
    by code_simp
  have d3: "to_datetime sample_world (PStr ''2025-09-01'')
              = Inr (PdTimestamp \<lparr>ts_wall = wall_ns 2025 9 1 0 0 0, ts_tz = None\<rparr>)" by code_simp
  have f4: "isl (to_datetime layout_world (PStr ''31/12/2025''))" by code_simp
  have e4: "\<not> isl (to_datetime_format layout_world ''%d/%m/%Y'' (PStr ''31/12/2025''))"
    by code_simp
  have m4: "''%d/%m/%Y'' \<in> set excel_formats" by code_simp
  have u4: "list_all (\<lambda>fmt. \<forall>r'. to_datetime_format layout_world fmt (PStr ''31/12/2025'') = Inr r'
              \<longrightarrow> r' = PdTimestamp \<lparr>ts_wall = wall_ns 2025 12 31 0 0 0, ts_tz = None\<rparr>) excel_formats"
    by (simp add: excel_formats_def layout_world_def)
  have n4: "str_to_float layout_world ''31/12/2025'' = None" by code_simp
  from excel_serial_after_layouts[OF t1, of sample_world _ 45292] f1 l1 s1
  have a: "parse_excel_friendly_datetime sample_world (PStr ''45292'')
       = Inr (Some (Stamp \<lparr>ts_wall = wall_ns 1899 12 30 0 0 0 + 45292 * ns_per_day,
                           ts_tz = None\<rparr>))"
    by (simp add: list_all_iff)
  from excel_serial_after_layouts[OF t2, of sample_world _ "90585 / 2"] f2 l2 p2 r2
  have b: "parse_excel_friendly_datetime sample_world (PStr ''45292.5'')
       = Inr (Some (Stamp \<lparr>ts_wall = wall_ns 1899 12 30 0 0 0 + serial_ns (90585 / 2),
                           ts_tz = None\<rparr>))"
    by (simp add: list_all_iff)
  from excel_serial_after_layouts[OF t3, of sample_world
      "PdTimestamp \<lparr>ts_wall = wall_ns 2025 9 1 0 0 0, ts_tz = None\<rparr>" 0] d3
  have c: "parse_excel_friendly_datetime sample_world (PStr ''2025-09-01'')
       = Inr (Some (Stamp \<lparr>ts_wall = wall_ns 2025 9 1 0 0 0, ts_tz = None\<rparr>))"
    by simp
  from excel_serial_after_layouts[OF t4, of layout_world _ 0] f4 e4 m4
  obtain fmt r' where "fmt \<in> set excel_formats"
    "to_datetime_format layout_world fmt (PStr ''31/12/2025'') = Inr r'"
    "parse_excel_friendly_datetime layout_world (PStr ''31/12/2025'') = Inr (Some (of_pandas r'))"
    by blast
  with u4 have d: "parse_excel_friendly_datetime layout_world (PStr ''31/12/2025'')
       = Inr (Some (Stamp \<lparr>ts_wall = wall_ns 2025 12 31 0 0 0, ts_tz = None\<rparr>))"
    by (auto simp: list_all_iff)
  from t1 f1 l1 s1 a w1 p2 r2 b w2 c n4 d show ?thesis by blast
qed

section \<open>Deduplication before the pull\<close>






section \<open>The coercion of \<^verbatim>\<open>ignore_ssl_errors\<close>\<close>

lemma authenticate_seeq_login_raises:
  assumes "reaches_login w"
    and "spy_login w (calls st) url k p (coerce_ignore_ssl_errors v) = Inl e"
  shows "fst (authenticate_seeq w url k p prov v st)
     = Inr (PDict [(''success'', PBool False),
                   (''message'', PStr (''Authentication failed: '' @ exn_str e)),
                   (''error'', PStr (exn_str e)),
                   (''traceback'', PStr (format_exc w e))])"
  using assms
  by (auto simp: authenticate_seeq_def authenticate_seeq_body_def reaches_login_def Let_def
      split: option.splits)

lemma authenticate_seeq_login_returns:
  assumes "reaches_login w"
    and "spy_login w (calls st) url k p (coerce_ignore_ssl_errors v) = Inr user"
    and "user \<noteq> PNone"
  shows "spy_user (snd (authenticate_seeq w url k p prov v st)) = user
     \<and> as_ignore_ssl_errors (auth (snd (authenticate_seeq w url k p prov v st)))
         = coerce_ignore_ssl_errors v"
  using assms
  by (auto simp: authenticate_seeq_def authenticate_seeq_body_def reaches_login_def Let_def
      split: option.splits)

text \<open>
  Claim C10. The coercion gives true for a string exactly when its lower-case form is
  one of \<^verbatim>\<open>true\<close>, \<^verbatim>\<open>1\<close>, \<^verbatim>\<open>yes\<close>, \<^verbatim>\<open>on\<close>, leaves a boolean as it
  is, and gives false for any other value. \<^verbatim>\<open>authenticate_seeq\<close> makes its login call
  whenever it gets as far as that call (setting the compatibility option has not raised
  anything but an \<^verbatim>\<open>AttributeError\<close>) and makes no remote call otherwise; the login call
  carries the coerced value; what the operation then does is decided by the outcome of
  the login with the coerced value: its exception becomes the failure envelope, and when
  it leaves a user, the coerced value is what \<^verbatim>\<open>auth_state\<close> remembers.
\<close>

theorem ignore_ssl_errors_coerced_before_login:
  "coerce_ignore_ssl_errors (PStr s)
      = (str_lower s = ''true'' \<or> str_lower s = ''1'' \<or> str_lower s = ''yes'' \<or> str_lower s = ''on'')
   \<and> coerce_ignore_ssl_errors (PBool b) = b
   \<and> ((\<forall>s. v \<noteq> PStr s) \<and> (\<forall>b. v \<noteq> PBool b) \<longrightarrow> coerce_ignore_ssl_errors v = False)
   \<and> calls (snd (authenticate_seeq w url k p prov v st))
       = (if reaches_login w
          then calls st @ [Login url k p (coerce_ignore_ssl_errors v)] else calls st)
   \<and> (reaches_login w \<and> spy_login w (calls st) url k p (coerce_ignore_ssl_errors v) = Inl e \<longrightarrow>
        fst (authenticate_seeq w url k p prov v st)
          = Inr (PDict [(''success'', PBool False),
                        (''message'', PStr (''Authentication failed: '' @ exn_str e)),
                        (''error'', PStr (exn_str e)),
                        (''traceback'', PStr (format_exc w e))]))
   \<and> (reaches_login w \<and> spy_login w (calls st) url k p (coerce_ignore_ssl_errors v) = Inr user
        \<and> user \<noteq> PNone \<longrightarrow>
        spy_user (snd (authenticate_seeq w url k p prov v st)) = user
        \<and> as_ignore_ssl_errors (auth (snd (authenticate_seeq w url k p prov v st)))
            = coerce_ignore_ssl_errors v)"
proof -
  have 1: "coerce_ignore_ssl_errors (PStr s)
      = (str_lower s = ''true'' \<or> str_lower s = ''1'' \<or> str_lower s = ''yes'' \<or> str_lower s = ''on'')"
    by (auto simp: coerce_ignore_ssl_errors_def)
  have 2: "coerce_ignore_ssl_errors (PBool b) = b"
    by (simp add: coerce_ignore_ssl_errors_def)
  have 3: "(\<forall>s. v \<noteq> PStr s) \<and> (\<forall>b. v \<noteq> PBool b) \<longrightarrow> coerce_ignore_ssl_errors v = False"
    by (cases v) (auto simp: coerce_ignore_ssl_errors_def)
  from 1 2 3 authenticate_seeq_calls_exact[of w url k p prov v st]
    authenticate_seeq_login_raises[of w st url k p v e prov]
    authenticate_seeq_login_returns[of w st url k p v user prov]
  show ?thesis by blast
qed

theorem ignore_ssl_errors_coerced_before_login_witness:
  "coerce_ignore_ssl_errors (PStr ''YES'') = True
   \<and> coerce_ignore_ssl_errors (PStr ''false'') = False
   \<and> coerce_ignore_ssl_errors (PBool True) = True
   \<and> coerce_ignore_ssl_errors (PInt 1) = False
   \<and> reaches_login sample_world
   \<and> calls (snd (authenticate_seeq sample_world (PStr ''https://seeq.example'') (PStr ''key'')
        (PStr ''secret'') (PStr ''Seeq'') (PStr ''YES'') initial_state))
       = [Login (PStr ''https://seeq.example'') (PStr ''key'') (PStr ''secret'') True]
   \<and> calls (snd (authenticate_seeq sample_world (PStr ''https://seeq.example'') (PStr ''key'')
        (PStr ''secret'') (PStr ''Seeq'') (PInt 1) initial_state))
       = [Login (PStr ''https://seeq.example'') (PStr ''key'') (PStr ''secret'') False]
   \<and> as_ignore_ssl_errors (auth (snd (authenticate_seeq sample_world
        (PStr ''https://seeq.example'') (PStr ''key'') (PStr ''secret'') (PStr ''Seeq'')
        (PStr ''YES'') initial_state))) = True"
proof -
  have a: "(\<forall>s. PInt 1 \<noteq> PStr s) \<and> (\<forall>b. PInt 1 \<noteq> PBool b)" by simp
  have l1: "str_lower ''YES'' = ''yes''" by code_simp
  have l2: "str_lower ''false'' = ''false''" by code_simp
  have r: "reaches_login sample_world" by code_simp
  have c0: "calls initial_state = []" by code_simp
  have u: "spy_login sample_world (calls initial_state) (PStr ''https://seeq.example'')
             (PStr ''key'') (PStr ''secret'') True = Inr (PStr ''operator'')"
    by (simp add: sample_world_def)
  note t1 = ignore_ssl_errors_coerced_before_login[of "''YES''" True "PStr ''YES''" sample_world
      "PStr ''https://seeq.example''" "PStr ''key''" "PStr ''secret''" "PStr ''Seeq''"
      initial_state _ "PStr ''operator''"]
  note t2 = ignore_ssl_errors_coerced_before_login[of "''false''" True "PInt 1" sample_world
      "PStr ''https://seeq.example''" "PStr ''key''" "PStr ''secret''" "PStr ''Seeq''"
      initial_state _ "PStr ''operator''"]
  from t1 l1 have y: "coerce_ignore_ssl_errors (PStr ''YES'') = True" by simp
  from t2 l2 have f: "coerce_ignore_ssl_errors (PStr ''false'') = False" by simp
  from t1 have b: "coerce_ignore_ssl_errors (PBool True) = True" by blast
  from t2 a have i: "coerce_ignore_ssl_errors (PInt 1) = False" by blast
  from t1 r y c0 have cy: "calls (snd (authenticate_seeq sample_world
        (PStr ''https://seeq.example'') (PStr ''key'') (PStr ''secret'') (PStr ''Seeq'')
        (PStr ''YES'') initial_state))
       = [Login (PStr ''https://seeq.example'') (PStr ''key'') (PStr ''secret'') True]"
    by simp
  from t2 r i c0 have ci: "calls (snd (authenticate_seeq sample_world
        (PStr ''https://seeq.example'') (PStr ''key'') (PStr ''secret'') (PStr ''Seeq'')
        (PInt 1) initial_state))
       = [Login (PStr ''https://seeq.example'') (PStr ''key'') (PStr ''secret'') False]"
    by simp
  from t1 r y u have s: "as_ignore_ssl_errors (auth (snd (authenticate_seeq sample_world
        (PStr ''https://seeq.example'') (PStr ''key'') (PStr ''secret'') (PStr ''Seeq'')
        (PStr ''YES'') initial_state))) = True"
    by simp
  from y f b i r cy ci s show ?thesis by blast
qed

section \<open>Exceptions that leave \<^verbatim>\<open>search_and_pull_sensors\<close>\<close>

text \<open>
  Claim C1 fails on \<^verbatim>\<open>search_and_pull_sensors\<close>: called with credentials, two dates
  that parse and \<^verbatim>\<open>null\<close> for the sensor names, the loop over the names raises
  \<^verbatim>\<open>TypeError\<close>, the handler of line 566 reads the unbound local \<^verbatim>\<open>traceback\<close>,
  and the operation raises \<^verbatim>\<open>UnboundLocalError\<close> to its caller.
\<close>

theorem search_and_pull_sensors_raises:
  "fst (sample_run PNone (PStr ''2025-09-01'') (PStr ''2025-09-02'') PNone)
     = Inl (Exn UnboundLocalError
         ''cannot access local variable traceback where it is not associated with a value'')"
  by code_simp


lemma search_sensors_only_returns:
  "\<exists>env. fst (search_sensors_only w sn url k p prov ig st) = Inr env \<and> envelope_ok env"
proof (cases "search_sensors_only_body w sn url k p prov ig st")
  case (Pair r st')
  show ?thesis
  proof (cases r)
    case (Inl e)
    with Pair show ?thesis by (simp add: search_sensors_only_def envelope_ok_def)
  next
    case (Inr env)
    with Pair search_sensors_only_body_envelope[of w sn url k p prov ig st env]
    show ?thesis by (simp add: search_sensors_only_def)
  qed
qed

text \<open>
  The other five operations of \<^verbatim>\<open>seeq_runner.py\<close> always return a well-formed
  envelope: \<^verbatim>\<open>success\<close> is a boolean, and \<^verbatim>\<open>error\<close> and \<^verbatim>\<open>traceback\<close> appear only
  when it is false.
\<close>

theorem other_operations_return_envelopes:
  "(\<exists>env. fst (authenticate_seeq w url k p prov ig st) = Inr env \<and> envelope_ok env)
   \<and> (\<exists>env. fst (check_auth_status w st) = Inr env \<and> envelope_ok env)
   \<and> (\<exists>env. fst (search_sensors_only w sn url k p prov ig st) = Inr env \<and> envelope_ok env)
   \<and> (\<exists>env. fst (test_connection w url st) = Inr env \<and> envelope_ok env)
   \<and> (\<exists>env. fst (get_server_info w url st) = Inr env \<and> envelope_ok env)"
proof -
  have "\<exists>env. fst (check_auth_status w st) = Inr env \<and> envelope_ok env"
    by (simp add: check_auth_status_def envelope_ok_def)
  moreover have "\<exists>env. fst (test_connection w url st) = Inr env \<and> envelope_ok env"
    by (simp add: test_connection_def envelope_ok_def)
  moreover have "\<exists>env. fst (get_server_info w url st) = Inr env \<and> envelope_ok env"
    by (simp add: get_server_info_def envelope_ok_def)
  ultimately show ?thesis
    using authenticate_seeq_returns[of w url k p prov ig st]
      search_sensors_only_returns[of w sn url k p prov ig st]
    by blast
qed

text \<open>
  \<^verbatim>\<open>search_and_pull_sensors\<close> returns a well-formed envelope or raises
  \<^verbatim>\<open>UnboundLocalError\<close>.
\<close>

theorem search_and_pull_sensors_envelope_or_unbound:
  "(case fst (search_and_pull_sensors w sn sd ed g tz url k p prov ig st) of
      Inr env \<Rightarrow> envelope_ok env
    | Inl e \<Rightarrow> e = Exn UnboundLocalError
         ''cannot access local variable traceback where it is not associated with a value'')"
proof (cases "search_and_pull_sensors_body w sn sd ed g tz url k p prov ig st")
  case (Pair r st')
  show ?thesis
  proof (cases r)
    case (Inl e)
    with Pair show ?thesis by (simp add: search_and_pull_sensors_def)
  next
    case (Inr env)
    with Pair search_and_pull_sensors_body_envelope[of w sn sd ed g tz url k p prov ig st env]
    show ?thesis by (simp add: search_and_pull_sensors_def)
  qed
qed

text \<open>
  Once the authentication has gone through and the time range has resolved, sensor
  names that cannot be iterated make \<^verbatim>\<open>search_and_pull_sensors\<close> raise.
\<close>

theorem search_and_pull_sensors_not_iterable:
  assumes "authenticate_first w url k p prov ig st = (Go (), st1)"
    and "resolve_time_range w sd ed tz = Go r"
    and "isl (py_iter sn)"
  shows "fst (search_and_pull_sensors w sn sd ed g tz url k p prov ig st)
     = Inl (Exn UnboundLocalError
         ''cannot access local variable traceback where it is not associated with a value'')"
  using assms
  by (cases r) (auto simp: search_and_pull_sensors_def search_and_pull_sensors_body_def isl_def)

theorem search_and_pull_sensors_not_iterable_witness:
  "authenticate_first sample_world (PStr ''https://seeq.example'') (PStr ''key'')
        (PStr ''secret'') (PStr ''Seeq'') (PBool False) initial_state
     = (Go (), snd (authenticate_first sample_world (PStr ''https://seeq.example'') (PStr ''key'')
        (PStr ''secret'') (PStr ''Seeq'') (PBool False) initial_state))
   \<and> resolve_time_range sample_world (PStr ''2025-09-01'') (PStr ''2025-09-02'') PNone
       = Go (Stamp \<lparr>ts_wall = wall_ns 2025 9 1 0 0 0, ts_tz = Some tz_UTC\<rparr>,
             Stamp \<lparr>ts_wall = wall_ns 2025 9 2 0 0 0, ts_tz = Some tz_UTC\<rparr>)
   \<and> isl (py_iter (PInt 5))
   \<and> fst (search_and_pull_sensors sample_world (PInt 5) (PStr ''2025-09-01'') (PStr ''2025-09-02'')
        (PStr ''15min'') PNone (PStr ''https://seeq.example'') (PStr ''key'') (PStr ''secret'')
        (PStr ''Seeq'') (PBool False) initial_state)
     = Inl (Exn UnboundLocalError
         ''cannot access local variable traceback where it is not associated with a value'')"
proof -
  have a: "authenticate_first sample_world (PStr ''https://seeq.example'') (PStr ''key'')
        (PStr ''secret'') (PStr ''Seeq'') (PBool False) initial_state
     = (Go (), snd (authenticate_first sample_world (PStr ''https://seeq.example'') (PStr ''key'')
        (PStr ''secret'') (PStr ''Seeq'') (PBool False) initial_state))"
    by code_simp
  have r: "resolve_time_range sample_world (PStr ''2025-09-01'') (PStr ''2025-09-02'') PNone
       = Go (Stamp \<lparr>ts_wall = wall_ns 2025 9 1 0 0 0, ts_tz = Some tz_UTC\<rparr>,
             Stamp \<lparr>ts_wall = wall_ns 2025 9 2 0 0 0, ts_tz = Some tz_UTC\<rparr>)"
    by code_simp
  have i: "isl (py_iter (PInt 5))" by (simp add: py_iter_def)
  from search_and_pull_sensors_not_iterable[OF a r i] a r i show ?thesis by blast
qed

section \<open>Timezones of the start and the end\<close>

text \<open>
  Claim C5 fails when the start carries a timezone and the end does not: without a
  zone argument the end is left naive, and is passed so to the pull. With a naive start
  and an aware end the block raises instead of leaving the end unchanged.
\<close>

theorem end_left_naive_when_start_aware:
  "resolve_time_range sample_world (PStr ''2025-09-01T00:00:00+05:00'') (PStr ''2025-09-02'') PNone
     = Go (Stamp \<lparr>ts_wall = wall_ns 2025 9 1 0 0 0,
                   ts_tz = Some \<lparr>tz_name = ''UTC+05:00'', utcoffset = 18000\<rparr>\<rparr>,
           Stamp \<lparr>ts_wall = wall_ns 2025 9 2 0 0 0, ts_tz = None\<rparr>)
   \<and> last (calls (snd (sample_run (PList [PStr ''FLOW.2''])
        (PStr ''2025-09-01T00:00:00+05:00'') (PStr ''2025-09-02'') PNone)))
     = Pull [[(''Name'', PStr ''FLOW.2''), (''ID'', PStr ''id-3''), (''Type'', PStr ''StoredSignal''),
              (''Original_Name'', PStr ''FLOW.2'')]]
         (Stamp \<lparr>ts_wall = wall_ns 2025 9 1 0 0 0,
                   ts_tz = Some \<lparr>tz_name = ''UTC+05:00'', utcoffset = 18000\<rparr>\<rparr>)
         (Stamp \<lparr>ts_wall = wall_ns 2025 9 2 0 0 0, ts_tz = None\<rparr>)
         (PStr ''15min'')
   \<and> isl (apply_timezone sample_world PNone
        (Stamp \<lparr>ts_wall = wall_ns 2025 9 1 0 0 0, ts_tz = None\<rparr>)
        (Stamp \<lparr>ts_wall = wall_ns 2025 9 2 0 0 0,
                 ts_tz = Some \<lparr>tz_name = ''UTC+05:00'', utcoffset = 18000\<rparr>\<rparr>))"
  by code_simp


text \<open>
  Where the start and the end are both naive or both aware, the block does what claim
  C5 says: without a zone argument naive values are localized as UTC and aware values
  are left as they are; with a zone argument naive values are read as UTC and converted
  to the zone.
\<close>

theorem apply_timezone_uniform:
  "(\<not> truthy tz \<and> ts_tz s = None \<and> ts_tz e = None \<longrightarrow>
      apply_timezone w tz (Stamp s) (Stamp e)
        = Inr (Stamp (s\<lparr>ts_tz := Some tz_UTC\<rparr>), Stamp (e\<lparr>ts_tz := Some tz_UTC\<rparr>)))
   \<and> (\<not> truthy tz \<and> ts_tz s = Some zs \<and> ts_tz e = Some ze \<longrightarrow>
      apply_timezone w tz (Stamp s) (Stamp e) = Inr (Stamp s, Stamp e))
   \<and> (truthy tz \<and> ts_tz s = None \<and> ts_tz e = None
        \<and> tz_lookup w tz (ts_wall s) = Inr z1 \<and> tz_lookup w tz (ts_wall e) = Inr z2 \<longrightarrow>
      apply_timezone w tz (Stamp s) (Stamp e)
        = Inr (Stamp \<lparr>ts_wall = ts_wall s + utcoffset z1 * ns_per_second, ts_tz = Some z1\<rparr>,
               Stamp \<lparr>ts_wall = ts_wall e + utcoffset z2 * ns_per_second, ts_tz = Some z2\<rparr>))"
  by (auto simp: apply_timezone_def timezone_branches_def dt_tz_def tz_localize_utc_def
        tz_convert_def localize_convert_def utc_ns_def tz_UTC_def ns_per_second_def)

theorem apply_timezone_uniform_witness:
  "apply_timezone sample_world PNone
      (Stamp \<lparr>ts_wall = wall_ns 2025 9 1 0 0 0, ts_tz = None\<rparr>)
      (Stamp \<lparr>ts_wall = wall_ns 2025 9 2 0 0 0, ts_tz = None\<rparr>)
     = Inr (Stamp \<lparr>ts_wall = wall_ns 2025 9 1 0 0 0, ts_tz = Some tz_UTC\<rparr>,
            Stamp \<lparr>ts_wall = wall_ns 2025 9 2 0 0 0, ts_tz = Some tz_UTC\<rparr>)
   \<and> apply_timezone sample_world PNone
      (Stamp \<lparr>ts_wall = wall_ns 2025 9 1 0 0 0, ts_tz = Some \<lparr>tz_name = ''UTC+05:00'', utcoffset = 18000\<rparr>\<rparr>)
      (Stamp \<lparr>ts_wall = wall_ns 2025 9 2 0 0 0, ts_tz = Some tz_UTC\<rparr>)
     = Inr (Stamp \<lparr>ts_wall = wall_ns 2025 9 1 0 0 0, ts_tz = Some \<lparr>tz_name = ''UTC+05:00'', utcoffset = 18000\<rparr>\<rparr>,
            Stamp \<lparr>ts_wall = wall_ns 2025 9 2 0 0 0, ts_tz = Some tz_UTC\<rparr>)
   \<and> apply_timezone sample_world (PStr ''UTC'')
      (Stamp \<lparr>ts_wall = wall_ns 2025 9 1 0 0 0, ts_tz = None\<rparr>)
      (Stamp \<lparr>ts_wall = wall_ns 2025 9 2 0 0 0, ts_tz = None\<rparr>)
     = Inr (Stamp \<lparr>ts_wall = wall_ns 2025 9 1 0 0 0 + utcoffset tz_UTC * ns_per_second, ts_tz = Some tz_UTC\<rparr>,
            Stamp \<lparr>ts_wall = wall_ns 2025 9 2 0 0 0 + utcoffset tz_UTC * ns_per_second, ts_tz = Some tz_UTC\<rparr>)"
proof -
  let ?s = "\<lparr>ts_wall = wall_ns 2025 9 1 0 0 0, ts_tz = None\<rparr>"
  let ?e = "\<lparr>ts_wall = wall_ns 2025 9 2 0 0 0, ts_tz = None\<rparr>"
  let ?sa = "\<lparr>ts_wall = wall_ns 2025 9 1 0 0 0, ts_tz = Some \<lparr>tz_name = ''UTC+05:00'', utcoffset = 18000\<rparr>\<rparr>"
  let ?ea = "\<lparr>ts_wall = wall_ns 2025 9 2 0 0 0, ts_tz = Some tz_UTC\<rparr>"
  have l: "tz_lookup sample_world (PStr ''UTC'') (ts_wall ?s) = Inr tz_UTC"
    "tz_lookup sample_world (PStr ''UTC'') (ts_wall ?e) = Inr tz_UTC"
    by (simp_all add: sample_world_def)
  from apply_timezone_uniform[of PNone ?s ?e sample_world]
  have 1: "apply_timezone sample_world PNone (Stamp ?s) (Stamp ?e)
     = Inr (Stamp \<lparr>ts_wall = wall_ns 2025 9 1 0 0 0, ts_tz = Some tz_UTC\<rparr>,
            Stamp \<lparr>ts_wall = wall_ns 2025 9 2 0 0 0, ts_tz = Some tz_UTC\<rparr>)"
    by simp
  from apply_timezone_uniform[of PNone ?sa ?ea sample_world "\<lparr>tz_name = ''UTC+05:00'', utcoffset = 18000\<rparr>" tz_UTC]
  have 2: "apply_timezone sample_world PNone (Stamp ?sa) (Stamp ?ea) = Inr (Stamp ?sa, Stamp ?ea)"
    by simp
  from apply_timezone_uniform[of "PStr ''UTC''" ?s ?e sample_world _ _ tz_UTC tz_UTC] l
  have 3: "apply_timezone sample_world (PStr ''UTC'') (Stamp ?s) (Stamp ?e)
     = Inr (Stamp \<lparr>ts_wall = wall_ns 2025 9 1 0 0 0 + utcoffset tz_UTC * ns_per_second, ts_tz = Some tz_UTC\<rparr>,
            Stamp \<lparr>ts_wall = wall_ns 2025 9 2 0 0 0 + utcoffset tz_UTC * ns_per_second, ts_tz = Some tz_UTC\<rparr>)"
    by simp
  from 1 2 3 show ?thesis by blast
qed

end
